theory Spec2Isabelle
  imports Complex_Main "HOL-Library.Sublist" "HOL-Library.Product_Lexorder"
    "HOL-Library.List_Lexorder" "HOL-Library.Char_ord"
begin

section \<open>Shared Python conventions\<close>

text \<open>
  The curbside management tools are Python scripts over pandas dataframes. Exceptions are
  values of \<open>py_error\<close>; a function that may raise returns \<open>py_error + 'a\<close>. Numeric
  cells (widths, distances, angles) are modelled as real numbers: the rounding of
  IEEE doubles is not part of this development.
\<close>

datatype py_error = KeyError | IndexError | ValueError | TypeError | URLError | ExecuteError

section \<open>curbsidelib: angles\<close>



section \<open>Python strings\<close>

text \<open>
  Strings are byte lists; the helpers below follow \<open>str.strip\<close>, \<open>str.split\<close> with a
  one-character separator, \<open>str.isdigit\<close> and \<open>int\<close> on ASCII text. \<open>int\<close> raises
  \<open>ValueError\<close> unless the stripped text is an optional sign followed by decimal digits,
  where single underscores may stand between digits.
\<close>

definition is_space :: "char \<Rightarrow> bool" where
  "is_space c = (c \<in> set [CHR '' '', CHR 0x09, CHR 0x0A, CHR 0x0B, CHR 0x0C, CHR 0x0D,
                            CHR 0x1C, CHR 0x1D, CHR 0x1E, CHR 0x1F])"

definition strip :: "string \<Rightarrow> string" where
  "strip s = rev (dropWhile is_space (rev (dropWhile is_space s)))"

fun split_on :: "char \<Rightarrow> string \<Rightarrow> string list" where
  "split_on sep [] = [[]]"
| "split_on sep (c # cs) =
     (if c = sep then [] # split_on sep cs
      else (case split_on sep cs of [] \<Rightarrow> [[c]] | w # ws \<Rightarrow> (c # w) # ws))"

definition is_digit :: "char \<Rightarrow> bool" where
  "is_digit c = (c \<in> set ''0123456789'')"

definition digit_val :: "char \<Rightarrow> nat" where
  "digit_val c = length (takeWhile (\<lambda>d. d \<noteq> c) ''0123456789'')"

fun digits_value :: "nat \<Rightarrow> string \<Rightarrow> nat option" where
  "digits_value acc [] = Some acc"
| "digits_value acc (c # cs) =
     (if is_digit c then digits_value (10 * acc + digit_val c) cs
      else if c = CHR ''_'' \<and> cs \<noteq> [] \<and> is_digit (hd cs) then digits_value acc cs
      else None)"

definition py_int :: "string \<Rightarrow> py_error + int" where
  "py_int s =
     (let t = strip s;
          (neg, body) = (case t of
                           [] \<Rightarrow> (False, t)
                         | c # cs \<Rightarrow> if c = CHR ''-'' then (True, cs)
                                     else if c = CHR ''+'' then (False, cs)
                                     else (False, t))
      in if body = [] then Inl ValueError
         else if is_digit (hd body) then
           (case digits_value 0 body of
              None \<Rightarrow> Inl ValueError
            | Some n \<Rightarrow> Inr (if neg then - int n else int n))
         else Inl ValueError)"

text \<open>\<^verbatim>\<open>int("".join(filter(str.isdigit, s)))\<close>\<close>

definition digits_int :: "string \<Rightarrow> py_error + int" where
  "digits_int s = py_int (filter is_digit s)"

section \<open>Tool 4: the sieves and the intermediate table\<close>

text \<open>
  A row of \<open>treatment_intermediate\<close> after the two merges: the columns of the centerline
  segment and of the treatment that the sieves read. \<open>Modal_Priority i\<close> is the column
  \<open>Modal_Priority_i\<close>; \<open>Success_Metric\<close> maps a column name \<open>\<dots>_Success_Metric\<close> to its
  cell, and is undefined where the row has no such column. Text cells are strings and
  numeric cells are numbers; null cells are not modelled.
\<close>

record t4_row =
  Mode_Priority_Applicable :: string
  Modal_Priority :: "nat \<Rightarrow> string"
  Appropriate_Priority_Rank_Range :: string
  Appropriate_Land_Use :: string
  Land_Use :: string
  Place_Types :: string
  Place_Type :: string
  Total_ROW_Necessary_Per_Direction :: string
  Available_ROW :: real
  Success_Metric :: "string \<rightharpoonup> real"

text \<open>
  \<^verbatim>\<open>
  def modal_priority_sieve(row):
      mode = row["Mode Priority Applicable"]
      rank = -1
      for i in range(1, 8):
          if row["Modal_Priority_" + str(i)] == mode:
              rank = i
      rank_range = row["Appropriate Priority Rank Range"].split("-")
      if rank >= int(rank_range[0]) and rank <= int(rank_range[1]):
          return 1
      else:
          return 0
  \<close>
  \<open>and\<close> evaluates its right operand only when the left one holds, so \<open>rank_range[1]\<close> is
  read (and may raise) only then.
\<close>

definition modal_priority_sieve :: "t4_row \<Rightarrow> py_error + real" where
  "modal_priority_sieve row =
     (let mode = Mode_Priority_Applicable row;
          rank = foldl (\<lambda>rank i. if Modal_Priority row i = mode then int i else rank)
                   (- 1) [1..<8];
          rank_range = split_on CHR ''-'' (Appropriate_Priority_Rank_Range row)
      in case rank_range of
           [] \<Rightarrow> Inl IndexError
         | r0 # rest \<Rightarrow>
             (case py_int r0 of
                Inl e \<Rightarrow> Inl e
              | Inr lo \<Rightarrow>
                  if rank \<ge> lo then
                    (case rest of
                       [] \<Rightarrow> Inl IndexError
                     | r1 # _ \<Rightarrow>
                         (case py_int r1 of
                            Inl e \<Rightarrow> Inl e
                          | Inr hi \<Rightarrow> if rank \<le> hi then Inr 1 else Inr 0))
                  else Inr 0))"

text \<open>
  \<^verbatim>\<open>
  def land_use_sieve(row):
      land_uses = [i.strip() for i in row["Appropriate Land Use"].split(",")]
      if row["Land_Use"] in land_uses:
          return 1
      else:
          return 0
  \<close>
\<close>

definition land_use_sieve :: "t4_row \<Rightarrow> py_error + real" where
  "land_use_sieve row =
     (let land_uses = map strip (split_on CHR '','' (Appropriate_Land_Use row))
      in if Land_Use row \<in> set land_uses then Inr 1 else Inr 0)"

text \<open>
  \<^verbatim>\<open>
  def place_type_sieve(row):
      place_types = int("".join(filter(str.isdigit, row["Place Types"])))
      data_place_type = int("".join(filter(str.isdigit, row["Place_Type"])))
      if data_place_type <= place_types:
          return 1
      else:
          return 0
  \<close>
\<close>

definition place_type_sieve :: "t4_row \<Rightarrow> py_error + real" where
  "place_type_sieve row =
     (case digits_int (Place_Types row) of
        Inl e \<Rightarrow> Inl e
      | Inr place_types \<Rightarrow>
          (case digits_int (Place_Type row) of
             Inl e \<Rightarrow> Inl e
           | Inr data_place_type \<Rightarrow>
               if data_place_type \<le> place_types then Inr 1 else Inr 0))"

text \<open>
  \<^verbatim>\<open>
  def row_available_sieve(row):
      necessary_row = int("".join(filter(str.isdigit,
                          row["Total ROW Necessary Per Direction"]))) * 0.3048
      if row["Available_ROW"]>= necessary_row:
          return 1
      else:
          return 0
  \<close>
\<close>

definition row_available_sieve :: "t4_row \<Rightarrow> py_error + real" where
  "row_available_sieve row =
     (case digits_int (Total_ROW_Necessary_Per_Direction row) of
        Inl e \<Rightarrow> Inl e
      | Inr n \<Rightarrow>
          (let necessary_row = of_int n * 0.3048
           in if Available_ROW row \<ge> necessary_row then Inr 1 else Inr 0))"

text \<open>
  \<^verbatim>\<open>
  def success_metric_sieve(row):
      mode = str(row["Mode Priority Applicable"])
      success_col =  "{0}_Success_Metric".format(mode)
      try:
          success_value = row[success_col]
      except:
          success_value = 0
      return 1 - success_value # 0 if success_value == 1, 1 otherwise
  \<close>
\<close>

definition success_metric_sieve :: "t4_row \<Rightarrow> py_error + real" where
  "success_metric_sieve row =
     (let mode = Mode_Priority_Applicable row;
          success_col = mode @ ''_Success_Metric'';
          success_value = (case Success_Metric row success_col of
                             Some v \<Rightarrow> v
                           | None \<Rightarrow> 0)
      in Inr (1 - success_value))"

text \<open>
  The two input tables of \<open>create_intermediate_table\<close>. A centerline segment may lack
  modal priority and success metric columns: the function fills a missing
  \<open>Modal_Priority_i\<close> with the text \<open>None\<close> and a missing success metric with 0, and keeps
  of the success metric columns only the seven it names.
\<close>

record segment =
  seg_id :: int
  seg_Modal_Priority :: "nat \<rightharpoonup> string"
  seg_Place_Type :: string
  seg_Available_ROW :: real
  seg_Land_Use :: string
  seg_Success_Metric :: "string \<rightharpoonup> real"

record treatment =
  Treatment_ID :: int
  Treatments :: string
  trt_Mode_Priority_Applicable :: string
  trt_Appropriate_Priority_Rank_Range :: string
  trt_Place_Types :: string
  trt_Appropriate_Land_Use :: string
  trt_Total_ROW_Necessary_Per_Direction :: string

definition success_metrics :: "string list" where
  "success_metrics = map (\<lambda>mode. mode @ ''_Success_Metric'')
     [''Bicycle'', ''Pedestrian'', ''Transit'', ''Commerce'', ''Storage'', ''Automobility'',
      ''Ridehail'']"

definition merge_row :: "segment \<Rightarrow> treatment \<Rightarrow> t4_row" where
  "merge_row d t =
     \<lparr> Mode_Priority_Applicable = trt_Mode_Priority_Applicable t,
       Modal_Priority = (\<lambda>i. case seg_Modal_Priority d i of None \<Rightarrow> ''None'' | Some m \<Rightarrow> m),
       Appropriate_Priority_Rank_Range = trt_Appropriate_Priority_Rank_Range t,
       Appropriate_Land_Use = trt_Appropriate_Land_Use t,
       Land_Use = seg_Land_Use d,
       Place_Types = trt_Place_Types t,
       Place_Type = seg_Place_Type d,
       Total_ROW_Necessary_Per_Direction = trt_Total_ROW_Necessary_Per_Direction t,
       Available_ROW = seg_Available_ROW d,
       Success_Metric =
         (\<lambda>col. if col \<in> set success_metrics
                then Some (case seg_Success_Metric d col of None \<Rightarrow> 0 | Some v \<Rightarrow> v)
                else None) \<rparr>"

record intermediate_row =
  ir_segment :: int
  ir_Treatment_ID :: int
  ir_Treatments :: string
  Modal_Priority_Sieve :: real
  Land_Use_Sieve :: real
  Place_Type_Sieve :: real
  Row_Available_Sieve :: real
  Success_Metric_Sieve :: real
  Sum_Sieve :: real
  Treatment_Applied :: int

text \<open>\<open>DataFrame.apply(f, axis=1)\<close>: one call per row, in order; the first exception ends it.\<close>

primrec apply_rows :: "('a \<Rightarrow> py_error + 'b) \<Rightarrow> 'a list \<Rightarrow> py_error + 'b list" where
  "apply_rows f [] = Inr []"
| "apply_rows f (x # xs) =
     (case f x of
        Inl e \<Rightarrow> Inl e
      | Inr y \<Rightarrow> (case apply_rows f xs of Inl e \<Rightarrow> Inl e | Inr ys \<Rightarrow> Inr (y # ys)))"

text \<open>
  \<^verbatim>\<open>
  treatment_intermediate["Sum_Sieve"] = treatment_intermediate[sieve_columns].sum(axis=1)
  treatment_intermediate["Treatment_Applied"] =
      np.where(len(sieves) == treatment_intermediate["Sum_Sieve"], 1, 0)
  \<close>
  with the five entries of the \<open>sieves\<close> dictionary.
\<close>

definition score ::
  "(int \<times> int \<times> string) \<times> real \<times> real \<times> real \<times> real \<times> real \<Rightarrow> intermediate_row" where
  "score x =
     (case x of ((oid, tid, name), s1, s2, s3, s4, s5) \<Rightarrow>
        (let sum_sieve = s1 + s2 + s3 + s4 + s5
         in \<lparr> ir_segment = oid, ir_Treatment_ID = tid, ir_Treatments = name,
              Modal_Priority_Sieve = s1, Land_Use_Sieve = s2, Place_Type_Sieve = s3,
              Row_Available_Sieve = s4, Success_Metric_Sieve = s5,
              Sum_Sieve = sum_sieve,
              Treatment_Applied = (if 5 = sum_sieve then 1 else 0) \<rparr>))"

text \<open>
  \<open>create_intermediate_table\<close>: the Cartesian product of segment ids and treatments, the
  left merge with the segments on the segment id, the left merge with the treatments on
  the treatment id, then each sieve applied to every row, one sieve after the other in the
  order of the \<open>sieves\<close> dictionary.
\<close>

definition create_intermediate_table ::
  "segment list \<Rightarrow> treatment list \<Rightarrow> py_error + intermediate_row list" where
  "create_intermediate_table data_df treatment_df =
     (let treatment_intermediate =
            concat (map (\<lambda>d. map (\<lambda>t. (seg_id d, Treatment_ID t, Treatments t)) treatment_df)
                      data_df);
          merged =
            concat (map (\<lambda>(oid, tid, name).
                      concat (map (\<lambda>d. map (\<lambda>t. ((oid, tid, name), merge_row d t))
                                          (filter (\<lambda>t. Treatment_ID t = tid) treatment_df))
                                (filter (\<lambda>d. seg_id d = oid) data_df)))
                    treatment_intermediate);
          rows = map snd merged
      in case apply_rows modal_priority_sieve rows of Inl e \<Rightarrow> Inl e | Inr c1 \<Rightarrow>
         (case apply_rows land_use_sieve rows of Inl e \<Rightarrow> Inl e | Inr c2 \<Rightarrow>
         (case apply_rows place_type_sieve rows of Inl e \<Rightarrow> Inl e | Inr c3 \<Rightarrow>
         (case apply_rows row_available_sieve rows of Inl e \<Rightarrow> Inl e | Inr c4 \<Rightarrow>
         (case apply_rows success_metric_sieve rows of Inl e \<Rightarrow> Inl e | Inr c5 \<Rightarrow>
            Inr (map score
                  (zip (map fst merged) (zip c1 (zip c2 (zip c3 (zip c4 c5)))))))))))"

text \<open>
  A segment where bicycles rank second, and a bicycle treatment for ranks 1 to 3. The
  segment's land use is not one of the treatment's, and its bicycle success metric holds
  the value \<open>-1\<close>.
\<close>

definition example_segment :: segment where
  "example_segment =
     \<lparr> seg_id = 1,
       seg_Modal_Priority = [1 \<mapsto> ''Transit'', 2 \<mapsto> ''Bicycle''],
       seg_Place_Type = ''PT2'',
       seg_Available_ROW = 4,
       seg_Land_Use = ''Industrial'',
       seg_Success_Metric = [''Bicycle_Success_Metric'' \<mapsto> - 1] \<rparr>"

definition example_treatment :: treatment where
  "example_treatment =
     \<lparr> Treatment_ID = 7,
       Treatments = ''Protected bike lane'',
       trt_Mode_Priority_Applicable = ''Bicycle'',
       trt_Appropriate_Priority_Rank_Range = ''1-3'',
       trt_Place_Types = ''PT 3'',
       trt_Appropriate_Land_Use = ''Commercial, Residential'',
       trt_Total_ROW_Necessary_Per_Direction = ''10 ft'' \<rparr>"

section \<open>Tool 3 and curbsidelib: the shared-row evaluator\<close>

text \<open>
  A dataframe is its list of column names and its rows; a row gives the numeric cell of
  each column. The tools read a column only after finding its name among the columns, so
  a missing column is never read. Cells are real numbers (null cells are replaced by 0
  when the evaluator is built).
\<close>

type_synonym df_row = "string \<Rightarrow> real"

record dataframe =
  df_columns :: "string list"
  df_rows :: "df_row list"

text \<open>\<open>df[c] = f(df)\<close>, row by row: the column is appended when it is new.\<close>

definition assign :: "string \<Rightarrow> (df_row \<Rightarrow> real) \<Rightarrow> dataframe \<Rightarrow> dataframe" where
  "assign c f df =
     \<lparr> df_columns = (if c \<in> set (df_columns df) then df_columns df else df_columns df @ [c]),
       df_rows = map (\<lambda>r. r(c := f r)) (df_rows df) \<rparr>"

text \<open>\<open>df[cols].sum(axis=1)\<close>\<close>

definition row_sum :: "string list \<Rightarrow> df_row \<Rightarrow> real" where
  "row_sum cols r = sum_list (map r cols)"

text \<open>Python's \<open>sub in s\<close> on strings.\<close>

definition str_in :: "string \<Rightarrow> string \<Rightarrow> bool" where
  "str_in sub s = sublist sub s"

record shared_row_data_evaluator =
  sr_df :: dataframe
  scenario_dfs :: "string \<rightharpoonup> dataframe"
  added_columns :: "string \<rightharpoonup> string list"
  LTL_List :: "string list"
  RTL_List :: "string list"
  left_sidewalk_slices :: "string list"
  left_spec_slices :: "string list"
  center_width_field :: "string list"
  right_spec_slices :: "string list"
  right_sidewalk_slices :: "string list"
  spec_row_fields :: "string list"
  row_slices :: "string list"

text \<open>
  \<open>shared_row_data_evaluator.__init__\<close>, statement by statement. The lane lists are read
  from the columns of the frame as it is passed in, and sorted:
  \<^verbatim>\<open>
  self.LTL_List = [f for f in self.sr_df.columns if "Left_Through_Lane" in f]
  self.RTL_List = [f for f in self.sr_df.columns if "Right_Through_Lane" in f]
  self.LTL_List.sort()
  self.RTL_List.sort()
  \<close>
\<close>

definition init_LTL_List :: "dataframe \<Rightarrow> string list" where
  "init_LTL_List shared_row_df =
     sort (filter (str_in ''Left_Through_Lane'') (df_columns shared_row_df))"

definition init_RTL_List :: "dataframe \<Rightarrow> string list" where
  "init_RTL_List shared_row_df =
     sort (filter (str_in ''Right_Through_Lane'') (df_columns shared_row_df))"

text \<open>
  \<^verbatim>\<open>
  self.sr_df["Right_Thru_Lane_Widths"] = self.sr_df[self.RTL_List].sum(axis=1).fillna(0)
  self.sr_df["Left_Thru_Lane_Widths"] = self.sr_df[self.LTL_List].sum(axis=1).fillna(0)
  \<close>
\<close>

definition init_thru_widths :: "dataframe \<Rightarrow> dataframe" where
  "init_thru_widths shared_row_df =
     assign ''Left_Thru_Lane_Widths'' (row_sum (init_LTL_List shared_row_df))
       (assign ''Right_Thru_Lane_Widths'' (row_sum (init_RTL_List shared_row_df))
          shared_row_df)"

text \<open>
  \<^verbatim>\<open>
  self.left_sidewalk_slices = [i for i in ["Left_Sidewalk_Frontage_Zone",
      "Left_Sidewalk_Through_Zone", "Left_Sidewalk_Furniture_Zone"] if i in self.sr_df]
  self.left_spec_slices = ["Left_Bike_Lane", "Left_Bike_Buffer", "Left_Parking_Lane",
      "Left_Transit_Lane"]
  self.center_width_field = ["Center_Lane"]
  self.right_spec_slices = ["Right_Transit_Lane", "Right_Parking_Lane", "Right_Bike_Buffer",
      "Right_Bike_Lane", ]
  self.right_sidewalk_slices = [i for i in ["Right_Sidewalk_Furniture_Zone",
      "Right_Sidewalk_Through_Zone", "Right_Sidewalk_Frontage_Zone"] if i in self.sr_df]
  self.spec_row_fields = self.left_sidewalk_slices + self.left_spec_slices + self.LTL_List + \
      self.center_width_field + self.RTL_List + self.right_spec_slices \
      + self.right_sidewalk_slices
  self.row_slices = [i for i in self.spec_row_fields if i in self.sr_df.columns]
  \<close>
\<close>

definition init_left_sidewalk_slices :: "dataframe \<Rightarrow> string list" where
  "init_left_sidewalk_slices shared_row_df =
     filter (\<lambda>i. i \<in> set (df_columns (init_thru_widths shared_row_df)))
       [''Left_Sidewalk_Frontage_Zone'', ''Left_Sidewalk_Through_Zone'',
        ''Left_Sidewalk_Furniture_Zone'']"

definition init_right_sidewalk_slices :: "dataframe \<Rightarrow> string list" where
  "init_right_sidewalk_slices shared_row_df =
     filter (\<lambda>i. i \<in> set (df_columns (init_thru_widths shared_row_df)))
       [''Right_Sidewalk_Furniture_Zone'', ''Right_Sidewalk_Through_Zone'',
        ''Right_Sidewalk_Frontage_Zone'']"

definition init_left_spec_slices :: "string list" where
  "init_left_spec_slices =
     [''Left_Bike_Lane'', ''Left_Bike_Buffer'', ''Left_Parking_Lane'', ''Left_Transit_Lane'']"

definition init_right_spec_slices :: "string list" where
  "init_right_spec_slices =
     [''Right_Transit_Lane'', ''Right_Parking_Lane'', ''Right_Bike_Buffer'', ''Right_Bike_Lane'']"

definition init_spec_row_fields :: "dataframe \<Rightarrow> string list" where
  "init_spec_row_fields shared_row_df =
     init_left_sidewalk_slices shared_row_df @ init_left_spec_slices @
     init_LTL_List shared_row_df @ [''Center_Lane''] @ init_RTL_List shared_row_df @
     init_right_spec_slices @ init_right_sidewalk_slices shared_row_df"

definition init_row_slices :: "dataframe \<Rightarrow> string list" where
  "init_row_slices shared_row_df =
     filter (\<lambda>i. i \<in> set (df_columns (init_thru_widths shared_row_df)))
       (init_spec_row_fields shared_row_df)"

text \<open>
  \<^verbatim>\<open>
  self.sr_df["Total_ROW_Width"] = self.sr_df[self.row_slices].sum(axis=1)
  self.sr_df["Base_Total_ROW_Width"] = self.sr_df["Total_ROW_Width"]
  self.sr_df["Unused_ROW_Width"] = 0
  self.sr_df["Left_Sidewalk_Width"] = self.sr_df[self.left_sidewalk_slices].sum(axis=1)
  self.sr_df["Right_Sidewalk_Width"] = self.sr_df[self.right_sidewalk_slices].sum(axis=1)
  self.sr_df["Curb_To_Curb_Width"] = self.sr_df["Total_ROW_Width"] -
      (self.sr_df["Left_Sidewalk_Width"] + self.sr_df["Right_Sidewalk_Width"])
  \<close>
\<close>

definition init_sr_df :: "dataframe \<Rightarrow> dataframe" where
  "init_sr_df shared_row_df =
     (let d1 = assign ''Total_ROW_Width'' (row_sum (init_row_slices shared_row_df))
                 (init_thru_widths shared_row_df);
          d2 = assign ''Base_Total_ROW_Width'' (\<lambda>r. r ''Total_ROW_Width'') d1;
          d3 = assign ''Unused_ROW_Width'' (\<lambda>r. 0) d2;
          d4 = assign ''Left_Sidewalk_Width''
                 (row_sum (init_left_sidewalk_slices shared_row_df)) d3;
          d5 = assign ''Right_Sidewalk_Width''
                 (row_sum (init_right_sidewalk_slices shared_row_df)) d4
      in assign ''Curb_To_Curb_Width''
           (\<lambda>r. r ''Total_ROW_Width'' -
                  (r ''Left_Sidewalk_Width'' + r ''Right_Sidewalk_Width'')) d5)"

definition init :: "dataframe \<Rightarrow> shared_row_data_evaluator" where
  "init shared_row_df =
     \<lparr> sr_df = init_sr_df shared_row_df,
       scenario_dfs = Map.empty,
       added_columns =
         [''BASELINE_ROW'' \<mapsto>
            [''Total_ROW_Width'', ''Base_Total_ROW_Width'', ''Unused_ROW_Width'',
             ''Left_Sidewalk_Width'', ''Right_Sidewalk_Width'', ''Curb_To_Curb_Width'']],
       LTL_List = init_LTL_List shared_row_df,
       RTL_List = init_RTL_List shared_row_df,
       left_sidewalk_slices = init_left_sidewalk_slices shared_row_df,
       left_spec_slices = init_left_spec_slices,
       center_width_field = [''Center_Lane''],
       right_spec_slices = init_right_spec_slices,
       right_sidewalk_slices = init_right_sidewalk_slices shared_row_df,
       spec_row_fields = init_spec_row_fields shared_row_df,
       row_slices = init_row_slices shared_row_df \<rparr>"

text \<open>
  \<^verbatim>\<open>
  def update_row(self, scenario):
      if scenario in self.scenario_dfs:
          scen_df = self.scenario_dfs.get(scenario)
          self.added_columns.setdefault(scenario, self.added_columns.get("BASELINE_ROW"))
      else:
          scen_df = self.sr_df
      scen_df["Total_ROW_Width"] = scen_df[self.row_slices].sum(axis=1)
      scen_df["Unused_ROW_Width"] = scen_df["Base_Total_ROW_Width"] - scen_df["Total_ROW_Width"]
      scen_df["Left_Sidewalk_Width"] = scen_df[self.left_sidewalk_slices].sum(axis=1)
      scen_df["Right_Sidewalk_Width"] = scen_df[self.right_sidewalk_slices].sum(axis=1)
      scen_df["Curb_To_Curb_Width"] = (scen_df["Total_ROW_Width"] + scen_df["Unused_ROW_Width"]) - \
                                      (scen_df["Left_Sidewalk_Width"] + scen_df["Right_Sidewalk_Width"])
  \<close>
\<close>

definition update_row_df :: "shared_row_data_evaluator \<Rightarrow> dataframe \<Rightarrow> dataframe" where
  "update_row_df e scen_df =
     (let d1 = assign ''Total_ROW_Width'' (row_sum (row_slices e)) scen_df;
          d2 = assign ''Unused_ROW_Width''
                 (\<lambda>r. r ''Base_Total_ROW_Width'' - r ''Total_ROW_Width'') d1;
          d3 = assign ''Left_Sidewalk_Width'' (row_sum (left_sidewalk_slices e)) d2;
          d4 = assign ''Right_Sidewalk_Width'' (row_sum (right_sidewalk_slices e)) d3
      in assign ''Curb_To_Curb_Width''
           (\<lambda>r. (r ''Total_ROW_Width'' + r ''Unused_ROW_Width'') -
                  (r ''Left_Sidewalk_Width'' + r ''Right_Sidewalk_Width'')) d4)"

definition update_row ::
  "string \<Rightarrow> shared_row_data_evaluator \<Rightarrow> shared_row_data_evaluator" where
  "update_row scenario e =
     (case scenario_dfs e scenario of
        Some scen_df \<Rightarrow>
          e\<lparr> scenario_dfs := (scenario_dfs e)(scenario \<mapsto> update_row_df e scen_df),
             added_columns :=
               (case added_columns e scenario of
                  Some _ \<Rightarrow> added_columns e
                | None \<Rightarrow> (added_columns e)(scenario := added_columns e ''BASELINE_ROW'')) \<rparr>
      | None \<Rightarrow> e\<lparr> sr_df := update_row_df e (sr_df e) \<rparr>)"

text \<open>\<open>self.scenario_dfs.setdefault(scenario_key, self.sr_df.copy())\<close>\<close>

definition scenario_or_copy :: "string \<Rightarrow> shared_row_data_evaluator \<Rightarrow> dataframe" where
  "scenario_or_copy scenario_key e =
     (case scenario_dfs e scenario_key of Some df \<Rightarrow> df | None \<Rightarrow> sr_df e)"

text \<open>\<open>df[lane] = np.where(df[lane] > lane_max, lane_max, df[lane])\<close> for each lane of a list.\<close>

definition cap_lanes :: "real \<Rightarrow> string list \<Rightarrow> dataframe \<Rightarrow> dataframe" where
  "cap_lanes lane_max lanes df =
     foldl (\<lambda>df lane. assign lane (\<lambda>r. if r lane > lane_max then lane_max else r lane) df)
       df lanes"

text \<open>
  \<^verbatim>\<open>
  def right_size_row(self, scenario_key):
      scenario_df = self.scenario_dfs.setdefault(scenario_key, self.sr_df.copy())
      curb_side_lanes = [i for i in self.RTL_List + self.LTL_List if "1" in i]
      other_thru_lanes = [i for i in self.RTL_List + self.LTL_List if "1" not in i]
      parking_lanes = [i for i in self.row_slices if "Parking" in i and "Meta" not in i]
      for oth_thru_lane in curb_side_lanes:
          curb_side_lane_max = 11 * 0.3048
          scenario_df[oth_thru_lane] = np.where(scenario_df[oth_thru_lane] > curb_side_lane_max,
                                                curb_side_lane_max, scenario_df[oth_thru_lane])
      for oth_thru_lane in other_thru_lanes:
          lane_max = 10 * 0.3048
          scenario_df[oth_thru_lane] = np.where(scenario_df[oth_thru_lane] > lane_max, lane_max,
                                                scenario_df[oth_thru_lane])
      for parking_lane in parking_lanes:
          park_max = 8 * 0.3048
          scenario_df[parking_lane] = np.where(scenario_df[parking_lane] > park_max, park_max,
                                               scenario_df[parking_lane])
      self.update_row(scenario_key)
      return scenario_df
  \<close>
\<close>

definition curb_side_lanes :: "shared_row_data_evaluator \<Rightarrow> string list" where
  "curb_side_lanes e = filter (\<lambda>i. str_in ''1'' i) (RTL_List e @ LTL_List e)"

definition other_thru_lanes :: "shared_row_data_evaluator \<Rightarrow> string list" where
  "other_thru_lanes e = filter (\<lambda>i. \<not> str_in ''1'' i) (RTL_List e @ LTL_List e)"

definition parking_lanes :: "shared_row_data_evaluator \<Rightarrow> string list" where
  "parking_lanes e =
     filter (\<lambda>i. str_in ''Parking'' i \<and> \<not> str_in ''Meta'' i) (row_slices e)"

definition right_size_df :: "shared_row_data_evaluator \<Rightarrow> dataframe \<Rightarrow> dataframe" where
  "right_size_df e scenario_df =
     cap_lanes (8 * 0.3048) (parking_lanes e)
       (cap_lanes (10 * 0.3048) (other_thru_lanes e)
          (cap_lanes (11 * 0.3048) (curb_side_lanes e) scenario_df))"

definition right_size_row ::
  "string \<Rightarrow> shared_row_data_evaluator \<Rightarrow> shared_row_data_evaluator" where
  "right_size_row scenario_key e =
     (let scenario_df = scenario_or_copy scenario_key e;
          scenario_df = right_size_df e scenario_df
      in update_row scenario_key
           (e\<lparr> scenario_dfs := (scenario_dfs e)(scenario_key \<mapsto> scenario_df) \<rparr>))"

text \<open>
  \<^verbatim>\<open>
  def remove_parking_lanes(self, scenario_key, right_lane_removed=True, left_lane_removed=True):
      scenario_df = self.scenario_dfs.setdefault(scenario_key, self.sr_df.copy())
      parking_lanes = [i for i in self.row_slices if "Parking_Lane" in i and "Meta" not in i]
      right_parking_lane = [i for i in parking_lanes if "Right" in i]
      left_parking_lane = [i for i in parking_lanes if "Left" in i]
      if right_parking_lane and right_lane_removed:
          parking_field = right_parking_lane[0]
          scenario_df[parking_field] = 0
      if left_parking_lane and left_lane_removed:
          parking_field = left_parking_lane[0]
          scenario_df[parking_field] = 0
      self.update_row(scenario_key)
      return scenario_df
  \<close>
\<close>

definition remove_parking_df ::
  "shared_row_data_evaluator \<Rightarrow> bool \<Rightarrow> bool \<Rightarrow> dataframe \<Rightarrow> dataframe" where
  "remove_parking_df e right_lane_removed left_lane_removed scenario_df =
     (let parking = filter (\<lambda>i. str_in ''Parking_Lane'' i \<and> \<not> str_in ''Meta'' i) (row_slices e);
          right_parking_lane = filter (str_in ''Right'') parking;
          left_parking_lane = filter (str_in ''Left'') parking;
          d1 = (case right_parking_lane of
                  parking_field # _ \<Rightarrow>
                    if right_lane_removed then assign parking_field (\<lambda>r. 0) scenario_df
                    else scenario_df
                | [] \<Rightarrow> scenario_df)
      in (case left_parking_lane of
            parking_field # _ \<Rightarrow>
              if left_lane_removed then assign parking_field (\<lambda>r. 0) d1 else d1
          | [] \<Rightarrow> d1))"

definition remove_parking_lanes ::
  "string \<Rightarrow> bool \<Rightarrow> bool \<Rightarrow> shared_row_data_evaluator \<Rightarrow> shared_row_data_evaluator" where
  "remove_parking_lanes scenario_key right_lane_removed left_lane_removed e =
     (let scenario_df = scenario_or_copy scenario_key e;
          scenario_df = remove_parking_df e right_lane_removed left_lane_removed scenario_df
      in update_row scenario_key
           (e\<lparr> scenario_dfs := (scenario_dfs e)(scenario_key \<mapsto> scenario_df) \<rparr>))"

text \<open>
  \<^verbatim>\<open>
  def remove_centermost_lane(row, lock_last_lane = lock_last_lane):
      if lock_last_lane:
          lane_check = 0
      else:
          lane_check = -1
      for idx, value in enumerate(row):
          if value <= 0 and (idx-1) != lane_check:
              row[idx-1] = 0
          elif idx == len(row)+1:
              row[idx] = 0
          else:
              pass
      return row
  \<close>
  \<open>row\<close> holds the lane widths of one side in the order of the lane list. An integer key on
  it is a position, and \<open>row[-1]\<close> is its last cell; the loop reads each cell when it reaches
  it, after the earlier writes. The \<open>elif\<close> test never holds, since \<open>idx\<close> stays below
  \<open>len(row)\<close>.
\<close>

definition remove_centermost_lane :: "bool \<Rightarrow> real list \<Rightarrow> real list" where
  "remove_centermost_lane lock_last_lane row =
     (let lane_check = (if lock_last_lane then 0 else - 1 :: int)
      in foldl (\<lambda>row idx.
                  if row ! idx \<le> 0 \<and> int idx - 1 \<noteq> lane_check
                  then row[(if idx = 0 then length row - 1 else idx - 1) := 0]
                  else row)
           row [0..<length row])"

text \<open>
  \<open>df[lanes] = df[lanes].apply(remove_centermost_lane, axis=1)\<close>: the lane cells of every row
  are replaced by the worker's result.
\<close>

definition apply_lanes :: "(real list \<Rightarrow> real list) \<Rightarrow> string list \<Rightarrow> dataframe \<Rightarrow> dataframe" where
  "apply_lanes f lanes df =
     df\<lparr> df_rows :=
           map (\<lambda>r. foldl (\<lambda>r' (lane, v). r'(lane := v)) r (zip lanes (f (map r lanes))))
             (df_rows df) \<rparr>"

text \<open>
  \<open>int(round(lane_removal_count/2.0, 0))\<close>: Python 3 rounds a half to the even neighbour.
\<close>

definition round_half :: "nat \<Rightarrow> nat" where
  "round_half n = (if even n then n div 2
                   else if even (n div 2) then n div 2 else n div 2 + 1)"

text \<open>
  \<^verbatim>\<open>
  def apply_road_diet(self, scenario_key, lane_removal_count = 2,lock_last_lane = True,
                      add_twltl=True):
      scenario_df = self.scenario_dfs.setdefault(scenario_key, self.sr_df.copy())
      right_temp_tracker = "Right_Most"
      left_temp_tracker = "Left_Most"
      scenario_df[right_temp_tracker] = 0
      scenario_df[left_temp_tracker] = 0
      ...
      right_lanes_to_remove = int(round(lane_removal_count/2.0,0))
      left_lanes_to_remove = int(lane_removal_count/2.0)
      for i in range(right_lanes_to_remove):
          scenario_df[self.RTL_List] = scenario_df[self.RTL_List].apply(remove_centermost_lane,axis=1)
      for i in range(left_lanes_to_remove):
          scenario_df[self.LTL_List] = scenario_df[self.LTL_List].apply(remove_centermost_lane,axis=1)
      self.update_row(scenario_key)
      return scenario_df
  \<close>
\<close>

definition road_diet_df ::
  "shared_row_data_evaluator \<Rightarrow> nat \<Rightarrow> bool \<Rightarrow> dataframe \<Rightarrow> dataframe" where
  "road_diet_df e lane_removal_count lock_last_lane scenario_df =
     (let d1 = assign ''Right_Most'' (\<lambda>r. 0) scenario_df;
          d2 = assign ''Left_Most'' (\<lambda>r. 0) d1;
          right_lanes_to_remove = round_half lane_removal_count;
          left_lanes_to_remove = lane_removal_count div 2;
          d3 = ((apply_lanes (remove_centermost_lane lock_last_lane) (RTL_List e))
                  ^^ right_lanes_to_remove) d2
      in ((apply_lanes (remove_centermost_lane lock_last_lane) (LTL_List e))
            ^^ left_lanes_to_remove) d3)"

definition apply_road_diet ::
  "string \<Rightarrow> nat \<Rightarrow> bool \<Rightarrow> shared_row_data_evaluator \<Rightarrow> shared_row_data_evaluator" where
  "apply_road_diet scenario_key lane_removal_count lock_last_lane e =
     (let scenario_df = scenario_or_copy scenario_key e;
          scenario_df = road_diet_df e lane_removal_count lock_last_lane scenario_df
      in update_row scenario_key
           (e\<lparr> scenario_dfs := (scenario_dfs e)(scenario_key \<mapsto> scenario_df) \<rparr>))"

text \<open>The editor operations, and a run of them on a freshly built evaluator.\<close>

datatype editor_op =
    Right_Size string
  | Remove_Parking string bool bool
  | Road_Diet string nat bool

fun edit :: "editor_op \<Rightarrow> shared_row_data_evaluator \<Rightarrow> shared_row_data_evaluator" where
  "edit (Right_Size k) e = right_size_row k e"
| "edit (Remove_Parking k r l) e = remove_parking_lanes k r l e"
| "edit (Road_Diet k n lock) e = apply_road_diet k n lock e"

definition run_edits ::
  "dataframe \<Rightarrow> editor_op list \<Rightarrow> shared_row_data_evaluator" where
  "run_edits shared_row_df ops = foldl (\<lambda>e op. edit op e) (init shared_row_df) ops"

text \<open>\<open>df[c]\<close>: the cells of one column, row by row.\<close>

definition column :: "string \<Rightarrow> dataframe \<Rightarrow> real list" where
  "column c df = map (\<lambda>r. r c) (df_rows df)"



text \<open>
  The columns the evaluator derives, and the condition that none of the slice and lane
  columns it reads is one of them. It holds of every evaluator that \<open>init\<close> builds, since
  the slice names are fixed texts and each lane name contains \<open>Left_Through_Lane\<close> or
  \<open>Right_Through_Lane\<close>.
\<close>

definition derived_columns :: "string list" where
  "derived_columns =
     [''Total_ROW_Width'', ''Base_Total_ROW_Width'', ''Unused_ROW_Width'',
      ''Left_Sidewalk_Width'', ''Right_Sidewalk_Width'', ''Curb_To_Curb_Width'']"

definition names_ok :: "shared_row_data_evaluator \<Rightarrow> bool" where
  "names_ok e =
     list_all (\<lambda>c. c \<notin> set derived_columns)
       (row_slices e @ LTL_List e @ RTL_List e @ left_sidewalk_slices e @
        right_sidewalk_slices e)"

text \<open>The effect of \<open>cap_lanes\<close>, of the three loops of \<open>right_size_row\<close> and of \<open>update_row\<close> on one row.\<close>

definition cap_row :: "real \<Rightarrow> string list \<Rightarrow> df_row \<Rightarrow> df_row" where
  "cap_row lane_max lanes r = (\<lambda>c. if c \<in> set lanes then min (r c) lane_max else r c)"

definition right_size_cells :: "shared_row_data_evaluator \<Rightarrow> df_row \<Rightarrow> df_row" where
  "right_size_cells e r =
     cap_row (8 * 0.3048) (parking_lanes e)
       (cap_row (10 * 0.3048) (other_thru_lanes e)
          (cap_row (11 * 0.3048) (curb_side_lanes e) r))"

definition update_row_cells :: "shared_row_data_evaluator \<Rightarrow> df_row \<Rightarrow> df_row" where
  "update_row_cells e r =
     (let r1 = r(''Total_ROW_Width'' := row_sum (row_slices e) r);
          r2 = r1(''Unused_ROW_Width'' := r1 ''Base_Total_ROW_Width'' - r1 ''Total_ROW_Width'');
          r3 = r2(''Left_Sidewalk_Width'' := row_sum (left_sidewalk_slices e) r2);
          r4 = r3(''Right_Sidewalk_Width'' := row_sum (right_sidewalk_slices e) r3)
      in r4(''Curb_To_Curb_Width'' :=
              (r4 ''Total_ROW_Width'' + r4 ''Unused_ROW_Width'') -
              (r4 ''Left_Sidewalk_Width'' + r4 ''Right_Sidewalk_Width'')))"

text \<open>
  A centerline table with two through lanes on each side, a left parking lane and a left
  sidewalk, and the three scenarios Tool 3 builds from it.
\<close>

definition example_shared_row_df :: dataframe where
  "example_shared_row_df =
     \<lparr> df_columns = [''Left_Through_Lane_1'', ''Left_Through_Lane_2'', ''Right_Through_Lane_1'',
                     ''Right_Through_Lane_2'', ''Left_Parking_Lane'',
                     ''Left_Sidewalk_Through_Zone''],
       df_rows = [(\<lambda>c. 0)(''Left_Through_Lane_1'' := 4, ''Left_Through_Lane_2'' := 3.5,
                           ''Right_Through_Lane_1'' := 3, ''Right_Through_Lane_2'' := 3,
                           ''Left_Parking_Lane'' := 3, ''Left_Sidewalk_Through_Zone'' := 2)] \<rparr>"

definition tool3_edits :: "editor_op list" where
  "tool3_edits = [Right_Size ''Right_Sized'', Remove_Parking ''No Parking'' True True,
                  Road_Diet ''Road Diet'' 2 True]"

text \<open>
  A table whose only lane column is both a curbside through lane (its name contains
  \<open>Left_Through_Lane\<close> and \<open>1\<close>) and a parking lane (its name contains \<open>Parking\<close> and not
  \<open>Meta\<close>).
\<close>

definition through_parking_df :: dataframe where
  "through_parking_df =
     \<lparr> df_columns = [''Left_Through_Lane_1_Parking''],
       df_rows = [(\<lambda>c. 0)(''Left_Through_Lane_1_Parking'' := 5)] \<rparr>"

section \<open>Tool 0: fetching SharedStreets geometry\<close>

text \<open>
  The tool reads the extent of every polygon of the input layer, asks the SharedStreets
  API for the centerlines within it, and writes them to the output feature class. What
  the run does to the outside is kept in a \<open>world\<close>: the requests sent, in order, and the
  rows of the output feature class (\<open>None\<close> while it does not exist). The platform and the
  network are parameters (\<open>t0_env\<close>): the answer to a request (the decoded \<open>features\<close>
  array, or the exception that \<open>urlopen\<close>, \<open>read\<close> or \<open>json.loads\<close> raises), the projection
  of an extent to WGS 84, and the \<open>overwriteOutput\<close> setting that decides whether creating
  an existing feature class succeeds.
\<close>

record extent =
  XMin :: real
  YMin :: real
  XMax :: real
  YMax :: real

text \<open>
  An element of the \<open>features\<close> array: \<open>feature["geometry"]["coordinates"]\<close>, a list of
  positions that are lists of numbers, and \<open>feature["properties"]["id"]\<close>.
\<close>

record ss_feature =
  coordinates :: "real list list"
  properties_id :: string

type_synonym polyline = "(real \<times> real) list"

type_synonym fc_row = "string \<times> polyline"

record world =
  request_log :: "extent list"
  output_fc :: "fc_row list option"

record t0_env =
  respond :: "extent \<Rightarrow> py_error + ss_feature list"
  project :: "extent \<Rightarrow> extent"
  overwriteOutput :: bool


text \<open>\<open>arcpy.Point(float(stringCoord[0]), float(stringCoord[1]))\<close>\<close>

definition point_of :: "real list \<Rightarrow> py_error + real \<times> real" where
  "point_of stringCoord =
     (case stringCoord of
        x # y # _ \<Rightarrow> Inr (x, y)
      | _ \<Rightarrow> Inl IndexError)"

text \<open>
  \<^verbatim>\<open>
  for feature in features:
      stringCoords = feature["geometry"]["coordinates"]
      polylineArray = arcpy.Array()
      for stringCoord in stringCoords:
          polylineArray.append(arcpy.Point(float(stringCoord[0]),float(stringCoord[1])))
      polyline = arcpy.Polyline(polylineArray,wgs84)
      id = feature["properties"]["id"]
      insertCursor.insertRow((id,polyline))
  \<close>
  The rows inserted so far stay when a later feature raises.
\<close>

fun insert_features :: "ss_feature list \<Rightarrow> fc_row list \<Rightarrow> py_error option \<times> fc_row list" where
  "insert_features [] inserted = (None, inserted)"
| "insert_features (feature # features) inserted =
     (case apply_rows point_of (coordinates feature) of
        Inl e \<Rightarrow> (Some e, inserted)
      | Inr polyline \<Rightarrow>
          insert_features features (inserted @ [(properties_id feature, polyline)]))"

text \<open>
  \<open>createFC\<close>: \<open>CreateFeatureclass_management\<close> makes an empty feature class in place of
  the old one, or raises when one exists and may not be overwritten.
\<close>

definition createFC :: "t0_env \<Rightarrow> ss_feature list \<Rightarrow> world \<Rightarrow> py_error option \<times> world" where
  "createFC env features w =
     (if output_fc w \<noteq> None \<and> \<not> overwriteOutput env then (Some ExecuteError, w)
      else (case insert_features features [] of
              (err, inserted) \<Rightarrow> (err, w\<lparr> output_fc := Some inserted \<rparr>)))"




text \<open>The state before a run: nothing requested, no output feature class.\<close>

definition fresh :: world where
  "fresh = \<lparr> request_log = [], output_fc = None \<rparr>"

text \<open>An API that answers every request with two centerlines, and two drawn polygons.\<close>

definition example_features :: "ss_feature list" where
  "example_features =
     [\<lparr> coordinates = [[-118.25, 34.05], [-118.24, 34.06, 12]], properties_id = ''a1'' \<rparr>,
      \<lparr> coordinates = [[-118.2, 34], [-118.1, 34.1], [-118, 34.2]], properties_id = ''b2'' \<rparr>]"

definition example_env :: "bool \<Rightarrow> t0_env" where
  "example_env overwrite =
     \<lparr> respond = (\<lambda>poly. Inr example_features), project = (\<lambda>poly. poly),
       overwriteOutput = overwrite \<rparr>"







section \<open>Tool 1: CurbLR to feature class\<close>

text \<open>
  Values read from the CurbLR JSON file, as Python holds them. \<open>JNull\<close> is \<open>None\<close>; \<open>JNaN\<close> is
  the \<open>np.nan\<close> that \<open>json_normalize\<close> (with \<open>errors = 'ignore'\<close>) and \<open>DataFrame\<close> put
  where a record has no value for a column. An object is its list of members; a name
  bound twice has its last value, as \<open>json.load\<close> keeps it.
\<close>

datatype json =
    JNull
  | JNaN
  | JNum real
  | JStr string
  | JArr "json list"
  | JObj "(string \<times> json) list"

definition dict_get :: "(string \<times> json) list \<Rightarrow> string \<Rightarrow> json option" where
  "dict_get members name = map_of (rev members) name"

text \<open>
  A row of the dataframe that \<open>json_normalize\<close> builds: one per time span of a regulation,
  with the members of the time span (each becomes a column of its own) and the four meta
  columns \<open>geometry\<close>, \<open>properties.location\<close>, \<open>properties.regulations.rule\<close> and
  \<open>properties.regulations.payment\<close>, which hold \<open>JNaN\<close> where the record lacks them.
\<close>

record norm_row =
  timeSpan :: "(string \<times> json) list"
  geometry :: json
  properties_location :: json
  regulations_rule :: json
  regulations_payment :: json

text \<open>
  A column made from the time spans exists when some time span has the member; a row
  whose time span lacks it holds \<open>JNaN\<close> there.
\<close>

definition has_column :: "norm_row list \<Rightarrow> string \<Rightarrow> bool" where
  "has_column df c = list_ex (\<lambda>r. dict_get (timeSpan r) c \<noteq> None) df"

definition cell :: "norm_row \<Rightarrow> string \<Rightarrow> json" where
  "cell r c = (case dict_get (timeSpan r) c of Some v \<Rightarrow> v | None \<Rightarrow> JNaN)"

text \<open>
  \<^verbatim>\<open>
  def get_item_zero(column): # just here to handle errors when data are missing
      try:
          return column[0]
      except:
          return None

  def extract(column, field):
      try:
          return column[field]
      except:
          return None
  \<close>
  Indexing with a string succeeds on an object that has the member, and raises on
  everything else; indexing with 0 succeeds on a non-empty list or string.
\<close>

definition get_item_zero :: "json \<Rightarrow> json" where
  "get_item_zero col =
     (case col of
        JArr (x # _) \<Rightarrow> x
      | JStr (c # _) \<Rightarrow> JStr [c]
      | _ \<Rightarrow> JNull)"

definition extract_field :: "json \<Rightarrow> string \<Rightarrow> json" where
  "extract_field col field =
     (case col of
        JObj members \<Rightarrow> (case dict_get members field of Some v \<Rightarrow> v | None \<Rightarrow> JNull)
      | _ \<Rightarrow> JNull)"

text \<open>
  \<^verbatim>\<open>
  def xy_to_polyline(xys, sr):
      return arcpy.Polyline(arcpy.Array([arcpy.Point(*coords) for coords in xys]), sr)
  \<close>
  The comprehension raises \<open>TypeError\<close> on a value that cannot be iterated (\<open>None\<close>, a
  number). What the platform's constructors make of the items is the parameter
  \<open>make_polyline\<close>.
\<close>

definition xy_to_polyline :: "(json list \<Rightarrow> py_error + polyline) \<Rightarrow> json \<Rightarrow> py_error + polyline" where
  "xy_to_polyline make_polyline xys =
     (case xys of
        JArr items \<Rightarrow> make_polyline items
      | JStr s \<Rightarrow> make_polyline (map (\<lambda>c. JStr [c]) s)
      | JObj members \<Rightarrow> make_polyline (map (\<lambda>m. JStr (fst m)) members)
      | _ \<Rightarrow> Inl TypeError)"

text \<open>\<open>Series.fillna(v)\<close> on one cell.\<close>

definition fillna :: "json \<Rightarrow> json \<Rightarrow> json" where
  "fillna v x = (if x = JNull \<or> x = JNaN then v else x)"

record extracted_row =
  geom :: polyline
  activity :: json
  priorityCategory :: json
  maxStay :: json
  timesOfDay_from :: json
  timesOfDay_to :: json
  effectiveDates_from :: json
  effectiveDates_to :: json
  SharedStreetID :: json
  payment :: int

text \<open>
  The extraction step of \<open>convert_curblr_to_feature_class\<close>:
  \<^verbatim>\<open>
  df['coordinates'] = df['geometry'].apply(extract, args = ['coordinates'])
  df['geom'] = df['coordinates'].apply(xy_to_polyline, args = [sr_wgs])
  for field in ['activity', 'priorityCategory', 'maxStay']:
      df[field] = df['properties.regulations.rule'].apply(extract, args = [field])
  df['maxStay'] = df['maxStay'].fillna(-1) # fill missing maxStay with magic value -1
  try:
      df['timesOfDay_from'] = df['timesOfDay'].apply(lambda x: extract(get_item_zero(x), 'from'))
      df['timesOfDay_to'] = df['timesOfDay'].apply(lambda x: extract(get_item_zero(x), 'to'))
  except KeyError:
      df['timesOfDay_from'] = None
      df['timesOfDay_to'] = None
  try:
      df['effectiveDates_from'] = df['effectiveDates'].apply(lambda x: extract(get_item_zero(x), 'from'))
      df['effectiveDates_to'] = df['effectiveDates'].apply(lambda x: extract(get_item_zero(x), 'to'))
  except KeyError:
      df['effectiveDates_from'] = None
      df['effectiveDates_to'] = None
  try:
      df['SharedStreetID'] = df['properties.location'].apply(extract, args = ['shstRefId'])
  except KeyError:
      df['SharedStreetID'] = None
  try:
      df['payment'] = df['properties.regulations.payment'].apply(lambda x: 1 if x is not np.nan else 0)
  except KeyError:
      df['payment'] = 0
  \<close>
  Only \<open>xy_to_polyline\<close> can raise here; the meta columns always exist, and a time span
  column that does not exist raises the \<open>KeyError\<close> that the \<open>try\<close> catches.
\<close>

definition from_to :: "norm_row list \<Rightarrow> string \<Rightarrow> string \<Rightarrow> norm_row \<Rightarrow> json" where
  "from_to df c field r =
     (if has_column df c then extract_field (get_item_zero (cell r c)) field else JNull)"

definition extract_fields ::
  "(json list \<Rightarrow> py_error + polyline) \<Rightarrow> norm_row list \<Rightarrow> py_error + extracted_row list" where
  "extract_fields make_polyline df =
     (let coords = map (\<lambda>r. extract_field (geometry r) ''coordinates'') df
      in case apply_rows (xy_to_polyline make_polyline) coords of
           Inl e \<Rightarrow> Inl e
         | Inr geoms \<Rightarrow>
             Inr (map (\<lambda>(r, g).
                        \<lparr> geom = g,
                          activity = extract_field (regulations_rule r) ''activity'',
                          priorityCategory = extract_field (regulations_rule r) ''priorityCategory'',
                          maxStay = fillna (JNum (- 1)) (extract_field (regulations_rule r) ''maxStay''),
                          timesOfDay_from = from_to df ''timesOfDay'' ''from'' r,
                          timesOfDay_to = from_to df ''timesOfDay'' ''to'' r,
                          effectiveDates_from = from_to df ''effectiveDates'' ''from'' r,
                          effectiveDates_to = from_to df ''effectiveDates'' ''to'' r,
                          SharedStreetID = extract_field (properties_location r) ''shstRefId'',
                          payment = (if regulations_payment r \<noteq> JNaN then 1 else 0) \<rparr>)
                    (zip df geoms)))"

text \<open>
  A member is absent from a record when the containing object lacks it, or when the
  containing object is itself missing.
\<close>

fun absent :: "json \<Rightarrow> string \<Rightarrow> bool" where
  "absent (JObj members) field = (dict_get members field = None)"
| "absent JNaN field = True"
| "absent _ field = False"

text \<open>
  A constructor for the examples: positions of two or more numbers become the vertices,
  and any other item is refused.
\<close>

definition example_polyline :: "json list \<Rightarrow> py_error + polyline" where
  "example_polyline items =
     apply_rows (\<lambda>p. case p of
                       JArr (JNum x # JNum y # _) \<Rightarrow> Inr (x, y)
                     | _ \<Rightarrow> Inl TypeError) items"

text \<open>
  A regulation with a geometry and a rule that names neither an activity nor a maximum
  stay, with no payment, location, times of day or effective dates; and the same
  regulation without the coordinates of its geometry.
\<close>

definition bare_regulation :: norm_row where
  "bare_regulation =
     \<lparr> timeSpan = [(''daysOfWeek'', JObj [(''days'', JArr [JStr ''mo'', JStr ''tu''])])],
       geometry = JObj [(''type'', JStr ''LineString''),
                        (''coordinates'', JArr [JArr [JNum 0, JNum 0], JArr [JNum 1, JNum 1]])],
       properties_location = JNaN,
       regulations_rule = JObj [(''priorityCategory'', JStr ''parking'')],
       regulations_payment = JNaN \<rparr>"

definition no_coordinates :: norm_row where
  "no_coordinates = bare_regulation\<lparr> geometry := JObj [(''type'', JStr ''LineString'')] \<rparr>"

section \<open>Grouping rows\<close>

text \<open>
  \<open>df.groupby(keys)\<close>: the rows of each key, in their order in the table, with the keys
  in ascending order (pandas sorts the group keys).
\<close>

definition group_by :: "('a \<Rightarrow> 'k::linorder) \<Rightarrow> 'a list \<Rightarrow> ('k \<times> 'a list) list" where
  "group_by key rows =
     map (\<lambda>k. (k, filter (\<lambda>x. key x = k) rows)) (sort (remdups (map key rows)))"

section \<open>Tool 2: linear-referencing correspondence\<close>

text \<open>
  A row of the located-events table: a start or end vertex of a curb feature, located
  on a centerline route within the bandwidth, with its measure along the route, its
  distance from the route, and the length of the curb feature it comes from (in the
  units of the bandwidth).
\<close>

record located_event =
  curb_feature_ID :: int
  corridor_ID :: int
  m_located :: real
  Distance :: real
  LENGTH :: real

text \<open>
  \<^verbatim>\<open>
  df = located.groupby([curb_feature_route_field, centerline_route_field]) \
              .agg({'m_located': [min, max, 'count'],
                    'Distance': [min, max],
                    'LENGTH': 'first'}).reset_index()
  \<close>
\<close>

record candidate =
  cand_curb :: int
  cand_centerline :: int
  m_located_min :: real
  m_located_max :: real
  m_located_count :: nat
  Distance_min :: real
  Distance_max :: real
  LENGTH_first :: real

definition aggregate :: "(int \<times> int) \<times> located_event list \<Rightarrow> candidate" where
  "aggregate kg =
     (case kg of ((curb, centerline), events) \<Rightarrow>
        \<lparr> cand_curb = curb,
          cand_centerline = centerline,
          m_located_min = Min (set (map m_located events)),
          m_located_max = Max (set (map m_located events)),
          m_located_count = length events,
          Distance_min = Min (set (map Distance events)),
          Distance_max = Max (set (map Distance events)),
          LENGTH_first = LENGTH (hd events) \<rparr>)"

text \<open>
  \<^verbatim>\<open>
  df['Distance_delta'] = (df['Distance_max'] - df['Distance_min']).abs()
  df['Distance_mean'] = (df['Distance_max'].abs() + df['Distance_min'].abs()) / 2
  df['d_over_l'] = df['Distance_delta'] / df['LENGTH_first']
  \<close>
  A division by a zero length gives an infinity or a NaN in pandas, and no exception;
  it is \<open>None\<close> here, and like them it is not below any threshold.
\<close>

definition Distance_delta :: "candidate \<Rightarrow> real" where
  "Distance_delta r = \<bar>Distance_max r - Distance_min r\<bar>"

definition Distance_mean :: "candidate \<Rightarrow> real" where
  "Distance_mean r = (\<bar>Distance_max r\<bar> + \<bar>Distance_min r\<bar>) / 2"

definition d_over_l :: "candidate \<Rightarrow> real option" where
  "d_over_l r = (if LENGTH_first r = 0 then None else Some (Distance_delta r / LENGTH_first r))"

definition below :: "real option \<Rightarrow> real \<Rightarrow> bool" where
  "below q threshold = (case q of None \<Rightarrow> False | Some v \<Rightarrow> v < threshold)"

text \<open>
  \<open>Series.idxmin()\<close> within one group: the first row that attains the least
  \<open>Distance_mean\<close>.
\<close>

fun idxmin :: "candidate list \<Rightarrow> candidate option" where
  "idxmin [] = None"
| "idxmin (r # rs) =
     (case idxmin rs of
        None \<Rightarrow> Some r
      | Some b \<Rightarrow> if Distance_mean r \<le> Distance_mean b then Some r else Some b)"

text \<open>
  \<^verbatim>\<open>
  df = df[df['m_located_count'] > 1]
  df = df[df['m_located_min'] != df['m_located_max']]
  ...
  df = df[df['d_over_l'] < math.sin(math.radians(angle_threshold))]
  temp = pd.DataFrame(df.groupby(curb_feature_route_field)['Distance_mean'].idxmin())
  my_df = temp.join(df[[centerline_route_field, 'm_located_min', 'm_located_max']], on = 'Distance_mean')
  my_df = my_df.drop(columns = 'Distance_mean')
  my_df = my_df.reset_index()
  my_df.columns = [curb_feature_route_field, centerline_route_field, 'm_from', 'm_to']
  \<close>
  The threshold is passed as the value of the sine.
\<close>

definition surviving :: "real \<Rightarrow> located_event list \<Rightarrow> candidate list" where
  "surviving threshold located =
     (let df = map aggregate
                 (group_by (\<lambda>e. (curb_feature_ID e, corridor_ID e)) located);
          df = filter (\<lambda>r. m_located_count r > 1) df;
          df = filter (\<lambda>r. m_located_min r \<noteq> m_located_max r) df
      in filter (\<lambda>r. below (d_over_l r) threshold) df)"

record match =
  match_curb :: int
  match_centerline :: int
  m_from :: real
  m_to :: real

definition my_df :: "real \<Rightarrow> located_event list \<Rightarrow> match list" where
  "my_df threshold located =
     concat (map (\<lambda>(curb, rows).
                    case idxmin rows of
                      None \<Rightarrow> []
                    | Some r \<Rightarrow> [\<lparr> match_curb = curb, match_centerline = cand_centerline r,
                                    m_from = m_located_min r, m_to = m_located_max r \<rparr>])
               (group_by cand_curb (surviving threshold located)))"

text \<open>
  \<^verbatim>\<open>
  arcpy.management.JoinField(mem_curb_features, curb_feature_route_field,
                          mem_table, curb_feature_route_field, fields_to_join)
  arcpy.analysis.Select(mem_curb_features, mem_curb_features_matched, 'm_from IS NOT NULL')
  \<close>
  The curb features are given by their route ids. The join gives a curb feature the
  first row of \<open>my_df\<close> with its id; the selection keeps the features that got one. These
  are the features from which the output routes are made.
\<close>

definition radians :: "real \<Rightarrow> real" where
  "radians deg = deg * pi / 180"

definition matched_curb_features :: "real \<Rightarrow> located_event list \<Rightarrow> int list \<Rightarrow> match list" where
  "matched_curb_features threshold located curb_features =
     concat (map (\<lambda>c. case find (\<lambda>m. match_curb m = c) (my_df threshold located) of
                         None \<Rightarrow> []
                       | Some m \<Rightarrow> [m])
               curb_features)"

definition prepare_lr_correspondence :: "located_event list \<Rightarrow> int list \<Rightarrow> real \<Rightarrow> match list" where
  "prepare_lr_correspondence located curb_features angle_threshold =
     matched_curb_features (sin (radians angle_threshold)) located curb_features"

text \<open>
  The claim in the words of the specification: the events of a curb feature on a
  centerline, the three conditions for the pair to be kept, and the mean of the absolute
  least and greatest distances.
\<close>

definition events_on :: "located_event list \<Rightarrow> int \<Rightarrow> int \<Rightarrow> located_event list" where
  "events_on located c cl = filter (\<lambda>e. curb_feature_ID e = c \<and> corridor_ID e = cl) located"

definition kept :: "real \<Rightarrow> located_event list \<Rightarrow> int \<Rightarrow> int \<Rightarrow> bool" where
  "kept threshold located c cl =
     (let events = events_on located c cl;
          ms = set (map m_located events);
          ds = set (map Distance events)
      in length events > 1 \<and> Min ms \<noteq> Max ms \<and> LENGTH (hd events) \<noteq> 0 \<and>
         \<bar>Max ds - Min ds\<bar> / LENGTH (hd events) < threshold)"

definition mean_distance :: "located_event list \<Rightarrow> int \<Rightarrow> int \<Rightarrow> real" where
  "mean_distance located c cl =
     (let ds = set (map Distance (events_on located c cl)) in (\<bar>Max ds\<bar> + \<bar>Min ds\<bar>) / 2)"

text \<open>
  Curb feature 1 has both vertices on centerlines 10 and 11, nearly parallel to both and
  closer to 11; curb feature 2 has one vertex on centerline 10 only; curb feature 3 was
  located nowhere.
\<close>

definition example_located :: "located_event list" where
  "example_located =
     [\<lparr> curb_feature_ID = 1, corridor_ID = 10, m_located = 0, Distance = 12, LENGTH = 50 \<rparr>,
      \<lparr> curb_feature_ID = 1, corridor_ID = 11, m_located = 5, Distance = - 6, LENGTH = 50 \<rparr>,
      \<lparr> curb_feature_ID = 2, corridor_ID = 10, m_located = 70, Distance = 9, LENGTH = 30 \<rparr>,
      \<lparr> curb_feature_ID = 1, corridor_ID = 10, m_located = 49, Distance = 14, LENGTH = 50 \<rparr>,
      \<lparr> curb_feature_ID = 1, corridor_ID = 11, m_located = 55, Distance = - 8, LENGTH = 50 \<rparr>]"

section \<open>Tool 3: curbside usage summaries\<close>

text \<open>
  A row of the curbside regulation table, with the columns the summary reads. Datetimes
  are seconds on a common clock. \<open>has_primary\<close> and \<open>has_dt\<close> say whether the table has the
  columns \<open>primary\<close> and \<open>timesOfDay_from_dt\<close>, which Tool 1 writes and hand-made tables
  lack; without them \<open>cr_primary\<close> and the two \<open>_dt\<close> cells of a row mean nothing and are
  not read. Null cells are not modelled.
\<close>

record curb_row =
  cr_corridor :: int
  cr_primary :: int
  cr_activity :: string
  cr_priorityCategory :: string
  cr_maxStay :: real
  cr_payment :: real
  daysOfWeek :: string
  cr_timesOfDay_from :: string
  cr_timesOfDay_to :: string
  timesOfDay_from_dt :: real
  timesOfDay_to_dt :: real
  Linear_Feet :: real

record curb_table =
  has_primary :: bool
  has_dt :: bool
  curb_rows :: "curb_row list"

text \<open>
  \<^verbatim>\<open>
  day_dict = {'Monday': 'mo', 'Tuesday': 'tu', 'Wednesday': 'we', 'Thursday': 'th',
              'Friday': 'fr', 'Saturday': 'sa', 'Sunday': 'su'}
  days_analyzed_query = "|".join(day_dict.get(i) for i in days_of_week_analyzed)
  \<close>
  \<open>join\<close> raises \<open>TypeError\<close> on the \<open>None\<close> that \<open>get\<close> returns for any other name.
\<close>

definition day_dict :: "(string \<times> string) list" where
  "day_dict = [(''Monday'', ''mo''), (''Tuesday'', ''tu''), (''Wednesday'', ''we''),
               (''Thursday'', ''th''), (''Friday'', ''fr''), (''Saturday'', ''sa''),
               (''Sunday'', ''su'')]"

definition days_analyzed_query :: "string list \<Rightarrow> py_error + string list" where
  "days_analyzed_query days_of_week_analyzed =
     apply_rows (\<lambda>i. case map_of day_dict i of None \<Rightarrow> Inl TypeError | Some a \<Rightarrow> Inr a)
       days_of_week_analyzed"

text \<open>
  \<open>Series.str.count(pattern)\<close> on one string, for a pattern that is an alternation of
  two-letter texts: the number of matches found from left to right, each search starting
  where the last match ended. With no alternative at all the pattern is empty, and
  matches once at every position of the string and once at its end.
\<close>

fun count_pairs :: "string list \<Rightarrow> string \<Rightarrow> nat" where
  "count_pairs alternatives (c # d # s) =
     (if [c, d] \<in> set alternatives then 1 + count_pairs alternatives s
      else count_pairs alternatives (d # s))"
| "count_pairs alternatives s = 0"

definition str_count :: "string list \<Rightarrow> string \<Rightarrow> nat" where
  "str_count alternatives s =
     (if alternatives = [] then length s + 1 else count_pairs alternatives s)"

text \<open>
  The form in which Tool 1 writes \<open>daysOfWeek\<close>: day abbreviations, separated by commas.
\<close>

fun comma_join :: "string list \<Rightarrow> string" where
  "comma_join [] = []"
| "comma_join [d] = d"
| "comma_join (d # e # ds) = d @ '','' @ comma_join (e # ds)"

text \<open>
  \<^verbatim>\<open>
  corridor_df = curb_df[curb_df[corridor_id] == corridor]
  if 'primary' in corridor_df.columns:
      corridor_df = corridor_df[corridor_df["primary"] == 1].copy()
  days_analyzed_query = "|".join(day_dict.get(i) for i in days_of_week_analyzed)
  corridor_df["Days_Active"] = (corridor_df["daysOfWeek"].str.count(days_analyzed_query))
  corridor_df = corridor_df[corridor_df["Days_Active"]>0].copy()
  if 'timesOfDay_from_dt' not in corridor_df.columns:
      corridor_df['timesOfDay_from_dt'] = pd.to_datetime(corridor_df['timesOfDay_from'])
      corridor_df['timesOfDay_to_dt'] = pd.to_datetime(corridor_df['timesOfDay_to'])
  corridor_df["Hours_Span"] = (corridor_df["timesOfDay_to_dt"] -
                               corridor_df["timesOfDay_from_dt"]).dt.total_seconds() / 3600
  corridor_df["Weekly_Hours"] = corridor_df["Hours_Span"] * corridor_df["Days_Active"]
  corridor_df["Linear_Feet_Hours"] = corridor_df["Weekly_Hours"] * corridor_df["Linear_Feet"]
  \<close>
  \<open>pd.to_datetime\<close> on a time text is the parameter \<open>to_datetime\<close>.
\<close>

record analysed_row =
  src :: curb_row
  Days_Active :: nat
  from_dt :: real
  to_dt :: real
  Hours_Span :: real
  Weekly_Hours :: real
  Linear_Feet_Hours :: real

definition analyse :: "(string \<Rightarrow> real) \<Rightarrow> bool \<Rightarrow> curb_row \<times> nat \<Rightarrow> analysed_row" where
  "analyse to_datetime with_dt rd =
     (case rd of (r, days_active) \<Rightarrow>
        (let from_dt = (if with_dt then timesOfDay_from_dt r
                        else to_datetime (cr_timesOfDay_from r));
             to_dt = (if with_dt then timesOfDay_to_dt r
                      else to_datetime (cr_timesOfDay_to r));
             hours_span = (to_dt - from_dt) / 3600;
             weekly_hours = hours_span * real days_active
         in \<lparr> src = r, Days_Active = days_active, from_dt = from_dt, to_dt = to_dt,
              Hours_Span = hours_span, Weekly_Hours = weekly_hours,
              Linear_Feet_Hours = weekly_hours * Linear_Feet r \<rparr>))"

definition corridor_source :: "curb_table \<Rightarrow> int \<Rightarrow> curb_row list" where
  "corridor_source curb_df corridor =
     (let corridor_df = filter (\<lambda>r. cr_corridor r = corridor) (curb_rows curb_df)
      in if has_primary curb_df then filter (\<lambda>r. cr_primary r = 1) corridor_df
         else corridor_df)"

definition corridor_rows ::
  "(string \<Rightarrow> real) \<Rightarrow> curb_table \<Rightarrow> string list \<Rightarrow> int \<Rightarrow> analysed_row list" where
  "corridor_rows to_datetime curb_df query corridor =
     (let corridor_df = corridor_source curb_df corridor;
          with_days = map (\<lambda>r. (r, str_count query (daysOfWeek r))) corridor_df;
          active = filter (\<lambda>rd. snd rd > 0) with_days
      in map (analyse to_datetime (has_dt curb_df)) active)"

text \<open>
  \<^verbatim>\<open>
  stats = {"Linear_Feet": "sum", "Linear_Feet_Hours": "sum"}
  corridor_summary = corridor_df.fillna(0).groupby(
      [corridor_id, "activity", "priorityCategory", "maxStay", "payment", "daysOfWeek",
       "Days_Active", "timesOfDay_from", "timesOfDay_to", "Hours_Span", "Weekly_Hours"]).agg(stats)
  corridor_summary = corridor_summary.reset_index()[desired_column_order]
  corridor_summary = corridor_summary.sort_values(by='Linear_Feet_Hours', ascending=False)
  corridor_summary["Summary_ID"] = np.arange(len(corridor_summary)) + 1
  \<close>
  The sort is taken to keep groups of equal \<open>Linear_Feet_Hours\<close> in the order of their
  keys; pandas does not promise an order among them.
\<close>

type_synonym group_key =
  "int \<times> string \<times> string \<times> real \<times> real \<times> string \<times> nat \<times> string \<times> string \<times> real \<times> real"

definition regulation_key :: "analysed_row \<Rightarrow> group_key" where
  "regulation_key a =
     (cr_corridor (src a), cr_activity (src a), cr_priorityCategory (src a),
      cr_maxStay (src a), cr_payment (src a), daysOfWeek (src a), Days_Active a,
      cr_timesOfDay_from (src a), cr_timesOfDay_to (src a), Hours_Span a, Weekly_Hours a)"

record summary_row =
  sum_key :: group_key
  sum_Linear_Feet :: real
  sum_Linear_Feet_Hours :: real
  Summary_ID :: nat

definition corridor_summary :: "analysed_row list \<Rightarrow> summary_row list" where
  "corridor_summary rows =
     (let summed = map (\<lambda>(k, g). (k, sum_list (map (\<lambda>a. Linear_Feet (src a)) g),
                                     sum_list (map Linear_Feet_Hours g)))
                     (group_by regulation_key rows);
          ordered = sort_key (\<lambda>(k, lf, lfh). - lfh) summed
      in map (\<lambda>(i, (k, lf, lfh)).
                 \<lparr> sum_key = k, sum_Linear_Feet = lf, sum_Linear_Feet_Hours = lfh,
                   Summary_ID = i \<rparr>)
           (zip [1..<length ordered + 1] ordered))"

text \<open>The groups with their sums, and the groups in the order of the summary.\<close>

definition summed_groups :: "analysed_row list \<Rightarrow> (group_key \<times> real \<times> real) list" where
  "summed_groups rows =
     map (\<lambda>(k, g). (k, sum_list (map (\<lambda>a. Linear_Feet (src a)) g),
                       sum_list (map Linear_Feet_Hours g)))
       (group_by regulation_key rows)"

definition ordered_groups :: "analysed_row list \<Rightarrow> (group_key \<times> real \<times> real) list" where
  "ordered_groups rows = sort_key (\<lambda>(k, lf, lfh). - lfh) (summed_groups rows)"

text \<open>
  Two loading zones and one parking regulation on corridor 7, a regulation that is only
  active on Sundays, and one on another corridor; times are those of Tool 1.
\<close>

definition example_curb_row :: curb_row where
  "example_curb_row =
     \<lparr> cr_corridor = 7, cr_primary = 1, cr_activity = ''loading'',
       cr_priorityCategory = ''loading'', cr_maxStay = 30, cr_payment = 0,
       daysOfWeek = ''mo,tu,we,th,fr'', cr_timesOfDay_from = ''08:00'',
       cr_timesOfDay_to = ''10:00'', timesOfDay_from_dt = 28800, timesOfDay_to_dt = 36000,
       Linear_Feet = 40 \<rparr>"

definition example_curb_table :: curb_table where
  "example_curb_table =
     \<lparr> has_primary = True, has_dt = True,
       curb_rows =
         [example_curb_row,
          example_curb_row\<lparr> cr_activity := ''parking'', cr_priorityCategory := ''parking'',
                            cr_maxStay := 120, cr_payment := 1,
                            daysOfWeek := ''mo,tu,we,th,fr,sa'',
                            cr_timesOfDay_to := ''18:00'', timesOfDay_to_dt := 64800,
                            Linear_Feet := 100 \<rparr>,
          example_curb_row\<lparr> Linear_Feet := 25 \<rparr>,
          example_curb_row\<lparr> daysOfWeek := ''su'' \<rparr>,
          example_curb_row\<lparr> cr_primary := 0 \<rparr>,
          example_curb_row\<lparr> cr_corridor := 8 \<rparr>] \<rparr>"

section \<open>Properties\<close>

subsection \<open>find_smallest_angle\<close>




subsection \<open>Tool 4: modal priority sieve\<close>

lemma rank_foldl:
  "foldl (\<lambda>rank i. if P i then int i else rank) r0 [a..<b] =
     (if {i. a \<le> i \<and> i < b \<and> P i} = {} then r0
      else int (Max {i. a \<le> i \<and> i < b \<and> P i}))"
proof (induction b)
  case 0
  then show ?case by simp
next
  case (Suc b)
  show ?case
  proof (cases "a \<le> b")
    case False
    then have "{i. a \<le> i \<and> i < Suc b \<and> P i} = {}" by auto
    with False show ?thesis by simp
  next
    case True
    let ?S = "{i. a \<le> i \<and> i < b \<and> P i}"
    let ?S' = "{i. a \<le> i \<and> i < Suc b \<and> P i}"
    have fin: "finite ?S" by simp
    show ?thesis
    proof (cases "P b")
      case True
      then have "b \<in> ?S'" using \<open>a \<le> b\<close> by simp
      moreover have "\<forall>i\<in>?S'. i \<le> b" by auto
      moreover have "finite ?S'" by simp
      ultimately have mx: "Max ?S' = b" by (meson Max_eqI)
      have ne: "?S' \<noteq> {}" using \<open>b \<in> ?S'\<close> by blast
      have l: "foldl (\<lambda>rank i. if P i then int i else rank) r0 [a..<Suc b] = int b"
        using \<open>a \<le> b\<close> True by simp
      have r: "(if ?S' = {} then r0 else int (Max ?S')) = int b"
        using ne mx by (simp only: if_False)
      show ?thesis using l r by (simp only:)
    next
      case False
      then have eq: "?S' = ?S" using less_Suc_eq by auto
      have "foldl (\<lambda>rank i. if P i then int i else rank) r0 [a..<Suc b] =
            foldl (\<lambda>rank i. if P i then int i else rank) r0 [a..<b]"
        using \<open>a \<le> b\<close> False by simp
      then show ?thesis using Suc.IH by (simp only: eq)
    qed
  qed
qed

lemma split_on_nonempty: "split_on sep s \<noteq> []"
  by (induction s) (auto split: list.splits)

lemma split_on_no_sep: "w \<in> set (split_on sep s) \<Longrightarrow> sep \<notin> set w"
proof (induction s arbitrary: w)
  case Nil
  then show ?case by simp
next
  case (Cons c cs)
  then show ?case
    by (cases "split_on sep cs") (auto split: if_splits)
qed

lemma set_strip: "set (strip s) \<subseteq> set s"
proof -
  have "set (strip s) = set (dropWhile is_space (rev (dropWhile is_space s)))"
    by (simp add: strip_def)
  also have "\<dots> \<subseteq> set (rev (dropWhile is_space s))"
    by (meson set_dropWhileD subsetI)
  also have "\<dots> \<subseteq> set s"
    using set_dropWhileD by fastforce
  finally show ?thesis .
qed

lemma py_int_nonneg:
  assumes "CHR ''-'' \<notin> set s" and "py_int s = Inr v"
  shows "0 \<le> v"
proof -
  have "CHR ''-'' \<notin> set (strip s)" using assms(1) set_strip by blast
  then have "\<And>cs. strip s \<noteq> CHR ''-'' # cs" by (metis list.set_intros(1))
  with assms(2) show ?thesis
    by (auto simp: py_int_def Let_def split: list.splits if_splits option.splits)
qed

text \<open>
  C6. Where the rank range has the form \<open>lo-hi\<close> (the text splits at \<open>-\<close> into at least two
  parts, and the first two parse as integers), \<open>modal_priority_sieve\<close> returns 1 if and only
  if the applicable mode stands in one of the columns \<open>Modal_Priority_1\<close> to
  \<open>Modal_Priority_7\<close> and the largest index where it stands lies between \<open>lo\<close> and \<open>hi\<close>
  inclusive, and returns 0 otherwise; with the mode in none of the seven columns it returns
  0 and raises nothing.
\<close>

theorem modal_priority_sieve_rank_range:
  assumes "split_on CHR ''-'' (Appropriate_Priority_Rank_Range row) = a # b # rest"
      and "py_int a = Inr lo" and "py_int b = Inr hi"
  shows "modal_priority_sieve row =
           Inr (if (\<exists>i\<in>{1..7}. Modal_Priority row i = Mode_Priority_Applicable row) \<and>
                   lo \<le> int (Max {i \<in> {1..7}. Modal_Priority row i = Mode_Priority_Applicable row}) \<and>
                   int (Max {i \<in> {1..7}. Modal_Priority row i = Mode_Priority_Applicable row}) \<le> hi
                then 1 else 0)"
proof -
  let ?P = "\<lambda>i. Modal_Priority row i = Mode_Priority_Applicable row"
  let ?S = "{i \<in> {1..7}. ?P i}"
  let ?rank = "foldl (\<lambda>rank i. if ?P i then int i else rank) (- 1) [1..<8]"
  have S: "{i. 1 \<le> i \<and> i < 8 \<and> ?P i} = ?S" by auto
  have rank: "?rank = (if ?S = {} then - 1 else int (Max ?S))"
    using rank_foldl [of ?P "- 1" 1 8] unfolding S .
  have "a \<in> set (split_on CHR ''-'' (Appropriate_Priority_Rank_Range row))"
    using assms(1) by simp
  then have "CHR ''-'' \<notin> set a" by (rule split_on_no_sep)
  then have lo: "0 \<le> lo" using assms(2) by (rule py_int_nonneg)
  have val: "modal_priority_sieve row =
      (if lo \<le> ?rank then (if ?rank \<le> hi then Inr 1 else Inr 0) else Inr 0)"
    using assms by (simp add: modal_priority_sieve_def Let_def)
  have ex: "(\<exists>i\<in>{1..7}. ?P i) \<longleftrightarrow> ?S \<noteq> {}" by blast
  show ?thesis
  proof (cases "?S = {}")
    case True
    then have "?rank = - 1" using rank by simp
    then have "modal_priority_sieve row = Inr 0" using val lo by simp
    then show ?thesis using True ex by simp
  next
    case False
    then have "?rank = int (Max ?S)" using rank by simp
    then show ?thesis using val False ex by auto
  qed
qed


theorem modal_priority_sieve_rank_range_witness:
  "modal_priority_sieve (merge_row example_segment example_treatment) = Inr 1 \<and>
   modal_priority_sieve
     (merge_row example_segment (example_treatment\<lparr>trt_Mode_Priority_Applicable := ''Freight''\<rparr>))
     = Inr 0"
proof -
  let ?r1 = "merge_row example_segment example_treatment"
  let ?r2 = "merge_row example_segment
               (example_treatment\<lparr>trt_Mode_Priority_Applicable := ''Freight''\<rparr>)"
  have s1: "split_on CHR ''-'' (Appropriate_Priority_Rank_Range ?r1) = ''1'' # ''3'' # []"
    by code_simp
  have s2: "split_on CHR ''-'' (Appropriate_Priority_Rank_Range ?r2) = ''1'' # ''3'' # []"
    by code_simp
  have a: "py_int ''1'' = Inr 1" by code_simp
  have b: "py_int ''3'' = Inr 3" by code_simp
  have M: "{i \<in> {1..7}. Modal_Priority ?r1 i = Mode_Priority_Applicable ?r1} = {2}"
    by (auto simp: merge_row_def example_segment_def example_treatment_def split: if_splits)
  have N: "\<not> (\<exists>i\<in>{1..7}. Modal_Priority ?r2 i = Mode_Priority_Applicable ?r2)"
    by (auto simp: merge_row_def example_segment_def example_treatment_def split: if_splits)
  have E: "\<exists>i\<in>{1..7}. Modal_Priority ?r1 i = Mode_Priority_Applicable ?r1"
    by (rule bexI [of _ 2]) (simp_all add: merge_row_def example_segment_def example_treatment_def)
  have "modal_priority_sieve ?r1 = Inr 1"
    using modal_priority_sieve_rank_range [OF s1 a b] E unfolding M by simp
  moreover have "modal_priority_sieve ?r2 = Inr 0"
    using modal_priority_sieve_rank_range [OF s2 a b] N by simp
  ultimately show ?thesis by simp
qed

subsection \<open>Tool 4: the intermediate table\<close>

text \<open>
  C2. On the segment and treatment above the land use sieve returns 0 and the success
  metric sieve returns 2, so that the five sieves sum to 5 and \<open>Treatment_Applied\<close> is 1
  although not every sieve returned 1.
\<close>

theorem treatment_applied_without_all_sieves:
  "create_intermediate_table [example_segment] [example_treatment] =
     Inr [\<lparr> ir_segment = 1, ir_Treatment_ID = 7, ir_Treatments = ''Protected bike lane'',
            Modal_Priority_Sieve = 1, Land_Use_Sieve = 0, Place_Type_Sieve = 1,
            Row_Available_Sieve = 1, Success_Metric_Sieve = 2,
            Sum_Sieve = 5, Treatment_Applied = 1 \<rparr>]"
  by code_simp

subsection \<open>The shared-row evaluator: columns an operation leaves alone\<close>


lemma cap_lanes_rows: "df_rows (cap_lanes m lanes df) = map (cap_row m lanes) (df_rows df)"
  unfolding cap_lanes_def
proof (induction lanes arbitrary: df)
  case Nil
  then show ?case by (simp add: cap_row_def)
next
  case (Cons l ls)
  have "(\<lambda>r. cap_row m ls (r(l := if m < r l then m else r l))) = cap_row m (l # ls)"
    by (rule ext, rule ext) (auto simp: cap_row_def min_def)
  then show ?case using Cons.IH by (simp add: assign_def o_def)
qed





lemma update_row_df_rows: "df_rows (update_row_df e d) = map (update_row_cells e) (df_rows d)"
  by (simp add: update_row_df_def update_row_cells_def assign_def Let_def o_def)


lemma update_row_cells_other:
  "c \<notin> set derived_columns \<Longrightarrow> update_row_cells e r c = r c"
  by (simp add: update_row_cells_def Let_def derived_columns_def)

lemma update_row_cells_base:
  "update_row_cells e r ''Base_Total_ROW_Width'' = r ''Base_Total_ROW_Width''"
  by (simp add: update_row_cells_def Let_def)



lemma update_row_df_static:
  "update_row_df (e\<lparr>scenario_dfs := s\<rparr>) = update_row_df e"
  by (rule ext) (simp add: update_row_df_def)

lemma update_row_put:
  "update_row k (e\<lparr>scenario_dfs := (scenario_dfs e)(k \<mapsto> d)\<rparr>) =
     e\<lparr> scenario_dfs := (scenario_dfs e)(k \<mapsto> update_row_df e d),
        added_columns := (case added_columns e k of
                            Some _ \<Rightarrow> added_columns e
                          | None \<Rightarrow> (added_columns e)(k := added_columns e ''BASELINE_ROW'')) \<rparr>"
  by (simp add: update_row_def update_row_df_static split: option.splits)

subsection \<open>The shared-row evaluator: names of the slice and lane columns\<close>

lemma derived_not_through_lane:
  "list_all (\<lambda>n. \<not> str_in ''Left_Through_Lane'' n \<and> \<not> str_in ''Right_Through_Lane'' n)
     derived_columns"
  by code_simp

lemma through_lane_not_derived:
  "str_in ''Left_Through_Lane'' c \<or> str_in ''Right_Through_Lane'' c \<Longrightarrow>
   c \<notin> set derived_columns"
  using derived_not_through_lane by (auto simp: list_all_iff)

lemma names_ok_init: "names_ok (init df)"
proof -
  have ltl: "\<forall>c\<in>set (init_LTL_List df). c \<notin> set derived_columns"
    using through_lane_not_derived by (auto simp: init_LTL_List_def)
  have rtl: "\<forall>c\<in>set (init_RTL_List df). c \<notin> set derived_columns"
    using through_lane_not_derived by (auto simp: init_RTL_List_def)
  have lss: "\<forall>c\<in>set (init_left_sidewalk_slices df). c \<notin> set derived_columns"
    by (auto simp: init_left_sidewalk_slices_def derived_columns_def)
  have rss: "\<forall>c\<in>set (init_right_sidewalk_slices df). c \<notin> set derived_columns"
    by (auto simp: init_right_sidewalk_slices_def derived_columns_def)
  have fixed: "\<forall>c\<in>set (init_left_spec_slices @ [''Center_Lane''] @ init_right_spec_slices).
                 c \<notin> set derived_columns"
    by (simp add: init_left_spec_slices_def init_right_spec_slices_def derived_columns_def)
  have spec: "\<forall>c\<in>set (init_spec_row_fields df). c \<notin> set derived_columns"
    using ltl rtl lss rss fixed by (auto simp: init_spec_row_fields_def)
  then have "\<forall>c\<in>set (init_row_slices df). c \<notin> set derived_columns"
    by (simp add: init_row_slices_def)
  then show ?thesis
    using ltl rtl lss rss by (auto simp: names_ok_def init_def list_all_iff)
qed

lemma names_ok_edit: "names_ok (edit op e) = names_ok e"
  by (cases op)
     (simp_all add: names_ok_def right_size_row_def remove_parking_lanes_def
        apply_road_diet_def Let_def update_row_put)


lemma names_ok_foldl: "names_ok (foldl (\<lambda>e op. edit op e) e ops) = names_ok e"
  by (induction ops arbitrary: e) (simp_all add: names_ok_edit)

lemma names_ok_run_edits: "names_ok (run_edits df ops)"
  by (simp add: run_edits_def names_ok_foldl names_ok_init)

lemma names_okD:
  assumes "names_ok e"
  shows "c \<in> set (row_slices e) \<Longrightarrow> c \<notin> set derived_columns"
    and "c \<in> set (LTL_List e) \<Longrightarrow> c \<notin> set derived_columns"
    and "c \<in> set (RTL_List e) \<Longrightarrow> c \<notin> set derived_columns"
    and "c \<in> set (left_sidewalk_slices e) \<Longrightarrow> c \<notin> set derived_columns"
    and "c \<in> set (right_sidewalk_slices e) \<Longrightarrow> c \<notin> set derived_columns"
  using assms by (auto simp: names_ok_def list_all_iff)


lemma lanes_not_derived:
  assumes "names_ok e"
  shows "c \<in> set (curb_side_lanes e) \<Longrightarrow> c \<notin> set derived_columns"
    and "c \<in> set (other_thru_lanes e) \<Longrightarrow> c \<notin> set derived_columns"
    and "c \<in> set (parking_lanes e) \<Longrightarrow> c \<notin> set derived_columns"
  using names_okD [OF assms]
  by (auto simp: curb_side_lanes_def other_thru_lanes_def parking_lanes_def)

subsection \<open>The shared-row evaluator: the invariant of the derived columns\<close>











subsection \<open>The shared-row evaluator: right sizing\<close>

lemma right_size_df_rows:
  "df_rows (right_size_df e d) = map (right_size_cells e) (df_rows d)"
  by (simp add: right_size_df_def right_size_cells_def cap_lanes_rows o_def)

lemma curb_side_not_other: "c \<in> set (curb_side_lanes e) \<Longrightarrow> c \<notin> set (other_thru_lanes e)"
  by (auto simp: curb_side_lanes_def other_thru_lanes_def)

lemma right_size_cells_parking:
  "c \<in> set (parking_lanes e) \<Longrightarrow> right_size_cells e r c = min (r c) (8 * 0.3048)"
  by (simp add: right_size_cells_def cap_row_def min_def)

lemma right_size_cells_curb_side:
  "c \<in> set (curb_side_lanes e) \<Longrightarrow> c \<notin> set (parking_lanes e) \<Longrightarrow>
   right_size_cells e r c = min (r c) (11 * 0.3048)"
  by (simp add: right_size_cells_def cap_row_def curb_side_not_other)

lemma right_size_cells_other:
  "c \<in> set (other_thru_lanes e) \<Longrightarrow> c \<notin> set (parking_lanes e) \<Longrightarrow>
   right_size_cells e r c = min (r c) (10 * 0.3048)"
  using curb_side_not_other [of c e] by (auto simp: right_size_cells_def cap_row_def)

lemma right_size_cells_untouched:
  "c \<notin> set (curb_side_lanes e) \<Longrightarrow> c \<notin> set (other_thru_lanes e) \<Longrightarrow>
   c \<notin> set (parking_lanes e) \<Longrightarrow> right_size_cells e r c = r c"
  by (simp add: right_size_cells_def cap_row_def)

lemma right_size_cells_pointwise:
  "r c = r' c \<Longrightarrow> right_size_cells e r c = right_size_cells e r' c"
  by (simp add: right_size_cells_def cap_row_def)

lemma right_size_cells_idem:
  "right_size_cells e (right_size_cells e r) c = right_size_cells e r c"
  by (simp add: right_size_cells_def cap_row_def min_def)

lemma right_size_cells_derived:
  assumes "names_ok e" and "c \<in> set derived_columns"
  shows "right_size_cells e r c = r c"
  using lanes_not_derived [OF assms(1), of c] assms(2)
  by (intro right_size_cells_untouched) blast+

lemma right_size_after_update:
  assumes "names_ok e"
  shows "right_size_cells e (update_row_cells e (right_size_cells e r)) =
         update_row_cells e (right_size_cells e r)"
proof (rule ext)
  fix c
  let ?r1 = "right_size_cells e r"
  show "right_size_cells e (update_row_cells e ?r1) c = update_row_cells e ?r1 c"
  proof (cases "c \<in> set derived_columns")
    case True
    then show ?thesis by (rule right_size_cells_derived [OF assms])
  next
    case False
    then have u: "update_row_cells e ?r1 c = ?r1 c" by (rule update_row_cells_other)
    then have "right_size_cells e (update_row_cells e ?r1) c = right_size_cells e ?r1 c"
      by (rule right_size_cells_pointwise)
    then show ?thesis using u by (simp add: right_size_cells_idem)
  qed
qed

lemma row_sum_cong:
  "(\<And>c. c \<in> set cols \<Longrightarrow> r c = r' c) \<Longrightarrow> row_sum cols r = row_sum cols r'"
  unfolding row_sum_def by (induction cols) auto

lemma row_sum_update_row_cells:
  assumes "\<And>c. c \<in> set cols \<Longrightarrow> c \<notin> set derived_columns"
  shows "row_sum cols (update_row_cells e r) = row_sum cols r"
  by (rule row_sum_cong) (simp add: update_row_cells_other assms)

lemma row_sum_upd:
  "c \<notin> set cols \<Longrightarrow> row_sum cols (r(c := v)) = row_sum cols r"
  by (rule row_sum_cong) auto

lemma update_row_cells_Total:
  "update_row_cells e r ''Total_ROW_Width'' = row_sum (row_slices e) r"
  by (simp add: update_row_cells_def Let_def)

lemma update_row_cells_Unused:
  "update_row_cells e r ''Unused_ROW_Width'' =
     r ''Base_Total_ROW_Width'' - row_sum (row_slices e) r"
  by (simp add: update_row_cells_def Let_def)

lemma update_row_cells_Left:
  assumes "''Total_ROW_Width'' \<notin> set (left_sidewalk_slices e)"
      and "''Unused_ROW_Width'' \<notin> set (left_sidewalk_slices e)"
  shows "update_row_cells e r ''Left_Sidewalk_Width'' = row_sum (left_sidewalk_slices e) r"
  by (simp add: update_row_cells_def Let_def row_sum_upd assms)

lemma update_row_cells_Right:
  assumes "''Total_ROW_Width'' \<notin> set (right_sidewalk_slices e)"
      and "''Unused_ROW_Width'' \<notin> set (right_sidewalk_slices e)"
      and "''Left_Sidewalk_Width'' \<notin> set (right_sidewalk_slices e)"
  shows "update_row_cells e r ''Right_Sidewalk_Width'' = row_sum (right_sidewalk_slices e) r"
  by (simp add: update_row_cells_def Let_def row_sum_upd assms)

lemma update_row_cells_Curb:
  "update_row_cells e r ''Curb_To_Curb_Width'' =
     (update_row_cells e r ''Total_ROW_Width'' + update_row_cells e r ''Unused_ROW_Width'') -
     (update_row_cells e r ''Left_Sidewalk_Width'' + update_row_cells e r ''Right_Sidewalk_Width'')"
  by (simp add: update_row_cells_def Let_def)

lemma derived_members:
  "''Total_ROW_Width'' \<in> set derived_columns"
  "''Unused_ROW_Width'' \<in> set derived_columns"
  "''Left_Sidewalk_Width'' \<in> set derived_columns"
  "''Right_Sidewalk_Width'' \<in> set derived_columns"
  "''Curb_To_Curb_Width'' \<in> set derived_columns"
  by (simp_all add: derived_columns_def)

lemma derived_cases:
  "c \<in> set derived_columns \<Longrightarrow>
   c = ''Total_ROW_Width'' \<or> c = ''Base_Total_ROW_Width'' \<or> c = ''Unused_ROW_Width'' \<or>
   c = ''Left_Sidewalk_Width'' \<or> c = ''Right_Sidewalk_Width'' \<or> c = ''Curb_To_Curb_Width''"
  by (simp add: derived_columns_def)

lemma update_row_cells_idem:
  assumes "names_ok e"
  shows "update_row_cells e (update_row_cells e r) = update_row_cells e r"
proof (rule ext)
  fix c
  let ?u = "update_row_cells e r"
  have s: "row_sum (row_slices e) ?u = row_sum (row_slices e) r"
          "row_sum (left_sidewalk_slices e) ?u = row_sum (left_sidewalk_slices e) r"
          "row_sum (right_sidewalk_slices e) ?u = row_sum (right_sidewalk_slices e) r"
    using names_okD [OF assms] by (simp_all add: row_sum_update_row_cells)
  have b: "?u ''Base_Total_ROW_Width'' = r ''Base_Total_ROW_Width''"
    by (rule update_row_cells_base)
  have l: "''Total_ROW_Width'' \<notin> set (left_sidewalk_slices e)"
          "''Unused_ROW_Width'' \<notin> set (left_sidewalk_slices e)"
    using names_okD(4) [OF assms] derived_members by blast+
  have rr: "''Total_ROW_Width'' \<notin> set (right_sidewalk_slices e)"
          "''Unused_ROW_Width'' \<notin> set (right_sidewalk_slices e)"
          "''Left_Sidewalk_Width'' \<notin> set (right_sidewalk_slices e)"
    using names_okD(5) [OF assms] derived_members by blast+
  have T: "update_row_cells e ?u ''Total_ROW_Width'' = ?u ''Total_ROW_Width''"
    by (simp only: update_row_cells_Total s)
  have U: "update_row_cells e ?u ''Unused_ROW_Width'' = ?u ''Unused_ROW_Width''"
    by (simp only: update_row_cells_Unused s b)
  have L: "update_row_cells e ?u ''Left_Sidewalk_Width'' = ?u ''Left_Sidewalk_Width''"
    by (simp only: update_row_cells_Left [OF l] s)
  have R: "update_row_cells e ?u ''Right_Sidewalk_Width'' = ?u ''Right_Sidewalk_Width''"
    by (simp only: update_row_cells_Right [OF rr] s)
  have C: "update_row_cells e ?u ''Curb_To_Curb_Width'' = ?u ''Curb_To_Curb_Width''"
    by (simp only: update_row_cells_Curb [of e ?u] update_row_cells_Curb [of e r] T U L R)
  have B: "update_row_cells e ?u ''Base_Total_ROW_Width'' = ?u ''Base_Total_ROW_Width''"
    by (rule update_row_cells_base)
  show "update_row_cells e ?u c = ?u c"
  proof (cases "c \<in> set derived_columns")
    case False
    then show ?thesis by (simp add: update_row_cells_other)
  next
    case True
    from derived_cases [OF True] show ?thesis
      using T U L R C B by (elim disjE) (simp_all only:)
  qed
qed

lemma assign_columns_set: "set (df_columns (assign c f d)) = insert c (set (df_columns d))"
  by (auto simp: assign_def)

lemma assign_columns_same: "c \<in> set (df_columns d) \<Longrightarrow> df_columns (assign c f d) = df_columns d"
  by (simp add: assign_def)

lemma cap_lanes_columns_set:
  "set (df_columns (cap_lanes m lanes d)) = set lanes \<union> set (df_columns d)"
  unfolding cap_lanes_def
  by (induction lanes arbitrary: d) (auto simp: assign_columns_set)

lemma cap_lanes_columns_same:
  "set lanes \<subseteq> set (df_columns d) \<Longrightarrow> df_columns (cap_lanes m lanes d) = df_columns d"
  unfolding cap_lanes_def
  by (induction lanes arbitrary: d) (auto simp: assign_columns_same)

lemma right_size_df_columns_set:
  "set (df_columns (right_size_df e d)) =
     set (parking_lanes e) \<union> set (other_thru_lanes e) \<union> set (curb_side_lanes e) \<union>
     set (df_columns d)"
  by (auto simp: right_size_df_def cap_lanes_columns_set)

lemma right_size_df_columns_same:
  assumes "set (parking_lanes e) \<union> set (other_thru_lanes e) \<union> set (curb_side_lanes e)
             \<subseteq> set (df_columns d)"
  shows "df_columns (right_size_df e d) = df_columns d"
  using assms by (simp add: right_size_df_def cap_lanes_columns_same)

lemma five_assign_columns_set:
  "set (df_columns (assign a5 f5 (assign a4 f4 (assign a3 f3 (assign a2 f2 (assign a1 f1 d)))))) =
     {a1, a2, a3, a4, a5} \<union> set (df_columns d)"
  by (auto simp: assign_columns_set)

lemma five_assign_columns_same:
  "{a1, a2, a3, a4, a5} \<subseteq> set (df_columns d) \<Longrightarrow>
   df_columns (assign a5 f5 (assign a4 f4 (assign a3 f3 (assign a2 f2 (assign a1 f1 d))))) =
     df_columns d"
  by (simp add: assign_def)

lemma update_row_df_columns_set:
  "set (df_columns (update_row_df e d)) =
     {''Total_ROW_Width'', ''Unused_ROW_Width'', ''Left_Sidewalk_Width'',
      ''Right_Sidewalk_Width'', ''Curb_To_Curb_Width''} \<union> set (df_columns d)"
  unfolding update_row_df_def Let_def by (rule five_assign_columns_set)

lemma update_row_df_columns_same:
  assumes "{''Total_ROW_Width'', ''Unused_ROW_Width'', ''Left_Sidewalk_Width'',
            ''Right_Sidewalk_Width'', ''Curb_To_Curb_Width''} \<subseteq> set (df_columns d)"
  shows "df_columns (update_row_df e d) = df_columns d"
  unfolding update_row_df_def Let_def using assms by (rule five_assign_columns_same)

lemma right_size_twice_df:
  fixes e :: shared_row_data_evaluator and d :: dataframe
  assumes "names_ok e"
  defines "d1 \<equiv> update_row_df e (right_size_df e d)"
  shows "update_row_df e (right_size_df e d1) = d1"
proof -
  have "set (parking_lanes e) \<union> set (other_thru_lanes e) \<union> set (curb_side_lanes e)
          \<subseteq> set (df_columns (right_size_df e d))"
    unfolding right_size_df_columns_set by (rule Un_upper1)
  moreover have "set (df_columns (right_size_df e d)) \<subseteq> set (df_columns d1)"
    unfolding d1_def update_row_df_columns_set by (rule Un_upper2)
  ultimately have lanes:
    "set (parking_lanes e) \<union> set (other_thru_lanes e) \<union> set (curb_side_lanes e)
       \<subseteq> set (df_columns d1)"
    by (rule subset_trans)
  have five: "{''Total_ROW_Width'', ''Unused_ROW_Width'', ''Left_Sidewalk_Width'',
               ''Right_Sidewalk_Width'', ''Curb_To_Curb_Width''} \<subseteq> set (df_columns d1)"
    unfolding d1_def update_row_df_columns_set by (rule Un_upper1)
  have rows1: "df_rows d1 = map (\<lambda>r. update_row_cells e (right_size_cells e r)) (df_rows d)"
    by (simp add: d1_def update_row_df_rows right_size_df_rows o_def)
  have "df_rows (right_size_df e d1) = df_rows d1"
    by (simp add: right_size_df_rows rows1 o_def right_size_after_update [OF assms(1)])
  moreover have "df_columns (right_size_df e d1) = df_columns d1"
    using lanes by (rule right_size_df_columns_same)
  ultimately have rs: "right_size_df e d1 = d1" by simp
  have "df_rows (update_row_df e d1) = df_rows d1"
    by (simp add: update_row_df_rows rows1 o_def update_row_cells_idem [OF assms(1)])
  moreover have "df_columns (update_row_df e d1) = df_columns d1"
    using five by (rule update_row_df_columns_same)
  ultimately have "update_row_df e d1 = d1" by simp
  with rs show ?thesis by simp
qed

lemma right_size_df_static:
  "right_size_df (e\<lparr>scenario_dfs := s, added_columns := a\<rparr>) = right_size_df e"
  by (rule ext)
     (simp add: right_size_df_def parking_lanes_def other_thru_lanes_def curb_side_lanes_def)

lemma update_row_df_static2:
  "update_row_df (e\<lparr>scenario_dfs := s, added_columns := a\<rparr>) = update_row_df e"
  by (rule ext) (simp add: update_row_df_def)

lemma right_size_row_eq:
  "right_size_row k e =
     e\<lparr> scenario_dfs :=
          (scenario_dfs e)(k \<mapsto> update_row_df e (right_size_df e (scenario_or_copy k e))),
        added_columns := (case added_columns e k of
                            Some _ \<Rightarrow> added_columns e
                          | None \<Rightarrow> (added_columns e)(k := added_columns e ''BASELINE_ROW'')) \<rparr>"
  by (simp add: right_size_row_def Let_def update_row_put)

lemma right_size_row_scenario:
  "scenario_dfs (right_size_row k e) k =
     Some (update_row_df e (right_size_df e (scenario_or_copy k e)))"
  by (simp add: right_size_row_eq)

lemma setdefault_twice:
  "(case (case A k of Some _ \<Rightarrow> A | None \<Rightarrow> A(k := A b)) k of
      Some _ \<Rightarrow> (case A k of Some _ \<Rightarrow> A | None \<Rightarrow> A(k := A b))
    | None \<Rightarrow> (case A k of Some _ \<Rightarrow> A | None \<Rightarrow> A(k := A b))
               (k := (case A k of Some _ \<Rightarrow> A | None \<Rightarrow> A(k := A b)) b)) =
   (case A k of Some _ \<Rightarrow> A | None \<Rightarrow> A(k := A b))"
  by (cases "A k"; cases "A b") (auto split: option.splits)

lemma right_size_row_idem:
  assumes "names_ok e"
  shows "right_size_row k (right_size_row k e) = right_size_row k e"
proof -
  let ?d1 = "update_row_df e (right_size_df e (scenario_or_copy k e))"
  let ?A1 = "case added_columns e k of
               Some _ \<Rightarrow> added_columns e
             | None \<Rightarrow> (added_columns e)(k := added_columns e ''BASELINE_ROW'')"
  let ?e1 = "e\<lparr> scenario_dfs := (scenario_dfs e)(k \<mapsto> ?d1), added_columns := ?A1 \<rparr>"
  have e1: "right_size_row k e = ?e1" by (rule right_size_row_eq)
  have copy: "scenario_or_copy k ?e1 = ?d1" by (simp add: scenario_or_copy_def)
  have d: "update_row_df ?e1 (right_size_df ?e1 ?d1) = ?d1"
    unfolding right_size_df_static update_row_df_static2
    by (rule right_size_twice_df [OF assms])
  have A: "(case ?A1 k of Some _ \<Rightarrow> ?A1 | None \<Rightarrow> ?A1(k := ?A1 ''BASELINE_ROW'')) = ?A1"
    by (rule setdefault_twice)
  have sel: "added_columns ?e1 = ?A1" "scenario_dfs ?e1 = (scenario_dfs e)(k \<mapsto> ?d1)"
    by simp_all
  have "right_size_row k ?e1 =
          ?e1\<lparr> scenario_dfs := (scenario_dfs ?e1)(k \<mapsto> update_row_df ?e1 (right_size_df ?e1 ?d1)),
                added_columns := (case added_columns ?e1 k of
                                    Some _ \<Rightarrow> added_columns ?e1
                                  | None \<Rightarrow> (added_columns ?e1)
                                              (k := added_columns ?e1 ''BASELINE_ROW'')) \<rparr>"
    using right_size_row_eq [of k ?e1] unfolding copy .
  also have "\<dots> = ?e1\<lparr> scenario_dfs := ((scenario_dfs e)(k \<mapsto> ?d1))(k \<mapsto> ?d1),
                          added_columns := ?A1 \<rparr>"
    unfolding d sel A ..
  also have "\<dots> = ?e1" by simp
  finally show ?thesis unfolding e1 .
qed

lemma column_right_size_update:
  assumes "c \<notin> set derived_columns"
  shows "column c (update_row_df e (right_size_df e d)) =
         map (\<lambda>r. right_size_cells e r c) (df_rows d)"
  by (simp add: column_def update_row_df_rows right_size_df_rows o_def
        update_row_cells_other [OF assms])

text \<open>
  C9, as the code has it. After \<open>right_size_row\<close> on a scenario of an evaluator built by
  \<open>init\<close> and edited by any operations, in every row each parking lane width is the minimum
  of its previous value and \<open>8 * 0.3048\<close>, each curbside through lane that is not also a
  parking lane is the minimum of its previous value and \<open>11 * 0.3048\<close>, and each other
  through lane that is not also a parking lane is the minimum of its previous value and
  \<open>10 * 0.3048\<close>; a second \<open>right_size_row\<close> on the same scenario changes nothing.
\<close>

theorem right_size_row_caps_idempotent:
  fixes shared_row_df :: dataframe and ops :: "editor_op list" and k :: string
  defines "e \<equiv> run_edits shared_row_df ops"
  defines "before \<equiv> scenario_or_copy k e"
  shows "\<exists>after. scenario_dfs (right_size_row k e) k = Some after \<and>
           (\<forall>c\<in>set (parking_lanes e).
              column c after = map (\<lambda>w. min w (8 * 0.3048)) (column c before)) \<and>
           (\<forall>c\<in>set (curb_side_lanes e) - set (parking_lanes e).
              column c after = map (\<lambda>w. min w (11 * 0.3048)) (column c before)) \<and>
           (\<forall>c\<in>set (other_thru_lanes e) - set (parking_lanes e).
              column c after = map (\<lambda>w. min w (10 * 0.3048)) (column c before)) \<and>
           right_size_row k (right_size_row k e) = right_size_row k e"
proof -
  have ok: "names_ok e" unfolding e_def by (rule names_ok_run_edits)
  let ?after = "update_row_df e (right_size_df e before)"
  have col: "\<And>c. c \<notin> set derived_columns \<Longrightarrow>
               column c ?after = map (\<lambda>r. right_size_cells e r c) (df_rows before)"
    by (rule column_right_size_update)
  have p: "\<forall>c\<in>set (parking_lanes e).
              column c ?after = map (\<lambda>w. min w (8 * 0.3048)) (column c before)"
  proof
    fix c
    assume a: "c \<in> set (parking_lanes e)"
    have "c \<notin> set derived_columns" using a by (rule lanes_not_derived(3) [OF ok])
    then have "column c ?after = map (\<lambda>r. right_size_cells e r c) (df_rows before)"
      by (rule col)
    also have "\<dots> = map (\<lambda>w. min w (8 * 0.3048)) (column c before)"
      by (simp add: right_size_cells_parking [OF a] column_def o_def)
    finally show "column c ?after = map (\<lambda>w. min w (8 * 0.3048)) (column c before)" .
  qed
  have c: "\<forall>c\<in>set (curb_side_lanes e) - set (parking_lanes e).
              column c ?after = map (\<lambda>w. min w (11 * 0.3048)) (column c before)"
  proof
    fix c
    assume "c \<in> set (curb_side_lanes e) - set (parking_lanes e)"
    then have a: "c \<in> set (curb_side_lanes e)" and n: "c \<notin> set (parking_lanes e)" by simp_all
    have "c \<notin> set derived_columns" using a by (rule lanes_not_derived(1) [OF ok])
    then have "column c ?after = map (\<lambda>r. right_size_cells e r c) (df_rows before)"
      by (rule col)
    also have "\<dots> = map (\<lambda>w. min w (11 * 0.3048)) (column c before)"
      by (simp add: right_size_cells_curb_side [OF a n] column_def o_def)
    finally show "column c ?after = map (\<lambda>w. min w (11 * 0.3048)) (column c before)" .
  qed
  have o: "\<forall>c\<in>set (other_thru_lanes e) - set (parking_lanes e).
              column c ?after = map (\<lambda>w. min w (10 * 0.3048)) (column c before)"
  proof
    fix c
    assume "c \<in> set (other_thru_lanes e) - set (parking_lanes e)"
    then have a: "c \<in> set (other_thru_lanes e)" and n: "c \<notin> set (parking_lanes e)" by simp_all
    have "c \<notin> set derived_columns" using a by (rule lanes_not_derived(2) [OF ok])
    then have "column c ?after = map (\<lambda>r. right_size_cells e r c) (df_rows before)"
      by (rule col)
    also have "\<dots> = map (\<lambda>w. min w (10 * 0.3048)) (column c before)"
      by (simp add: right_size_cells_other [OF a n] column_def o_def)
    finally show "column c ?after = map (\<lambda>w. min w (10 * 0.3048)) (column c before)" .
  qed
  have "scenario_dfs (right_size_row k e) k = Some ?after"
    unfolding before_def by (rule right_size_row_scenario)
  then show ?thesis
    using p c o right_size_row_idem [OF ok] by blast
qed

theorem right_size_row_caps_idempotent_witness:
  "\<exists>after. scenario_dfs (right_size_row ''Right_Sized'' (run_edits example_shared_row_df []))
             ''Right_Sized'' = Some after \<and>
           column ''Left_Parking_Lane'' after = [8 * 0.3048] \<and>
           column ''Left_Through_Lane_1'' after = [11 * 0.3048] \<and>
           column ''Left_Through_Lane_2'' after = [10 * 0.3048] \<and>
           column ''Right_Through_Lane_1'' after = [3]"
proof -
  let ?e = "run_edits example_shared_row_df []"
  let ?before = "scenario_or_copy ''Right_Sized'' ?e"
  have p: "''Left_Parking_Lane'' \<in> set (parking_lanes ?e)" by code_simp
  have c1: "''Left_Through_Lane_1'' \<in> set (curb_side_lanes ?e) - set (parking_lanes ?e)"
    by code_simp
  have c2: "''Right_Through_Lane_1'' \<in> set (curb_side_lanes ?e) - set (parking_lanes ?e)"
    by code_simp
  have o: "''Left_Through_Lane_2'' \<in> set (other_thru_lanes ?e) - set (parking_lanes ?e)"
    by code_simp
  have b: "column ''Left_Parking_Lane'' ?before = [3]"
          "column ''Left_Through_Lane_1'' ?before = [4]"
          "column ''Left_Through_Lane_2'' ?before = [3.5]"
          "column ''Right_Through_Lane_1'' ?before = [3]"
    by code_simp+
  from right_size_row_caps_idempotent [of "''Right_Sized''" example_shared_row_df "[]"]
  obtain after where
    a: "scenario_dfs (right_size_row ''Right_Sized'' ?e) ''Right_Sized'' = Some after"
    and P: "\<forall>c\<in>set (parking_lanes ?e).
              column c after = map (\<lambda>w. min w (8 * 0.3048)) (column c ?before)"
    and C: "\<forall>c\<in>set (curb_side_lanes ?e) - set (parking_lanes ?e).
              column c after = map (\<lambda>w. min w (11 * 0.3048)) (column c ?before)"
    and O: "\<forall>c\<in>set (other_thru_lanes ?e) - set (parking_lanes ?e).
              column c after = map (\<lambda>w. min w (10 * 0.3048)) (column c ?before)"
    by blast
  have "column ''Left_Parking_Lane'' after = [8 * 0.3048]"
    using bspec [OF P p] by (simp add: b)
  moreover have "column ''Left_Through_Lane_1'' after = [11 * 0.3048]"
    using bspec [OF C c1] by (simp add: b)
  moreover have "column ''Left_Through_Lane_2'' after = [10 * 0.3048]"
    using bspec [OF O o] by (simp add: b)
  moreover have "column ''Right_Through_Lane_1'' after = [3]"
    using bspec [OF C c2] by (simp add: b)
  ultimately show ?thesis using a by blast
qed

text \<open>
  C9 as stated fails where a through lane column is also a parking lane column: the lane
  \<open>Left_Through_Lane_1_Parking\<close>, 5 wide, is a curbside through lane, and after
  \<open>right_size_row\<close> it is \<open>8 * 0.3048\<close> wide, not \<open>11 * 0.3048\<close>.
\<close>

theorem right_size_row_through_parking_counterexample:
  "\<not> (\<forall>c\<in>set (curb_side_lanes (init through_parking_df)).
         map_option (column c)
           (scenario_dfs (right_size_row ''Right_Sized'' (init through_parking_df))
              ''Right_Sized'') =
         Some (map (\<lambda>w. min w (11 * 0.3048))
                 (column c (scenario_or_copy ''Right_Sized'' (init through_parking_df)))))"
proof
  let ?e = "init through_parking_df"
  let ?c = "''Left_Through_Lane_1_Parking''"
  let ?before = "scenario_or_copy ''Right_Sized'' ?e"
  assume all: "\<forall>c\<in>set (curb_side_lanes ?e).
         map_option (column c) (scenario_dfs (right_size_row ''Right_Sized'' ?e) ''Right_Sized'') =
         Some (map (\<lambda>w. min w (11 * 0.3048)) (column c ?before))"
  have curb: "?c \<in> set (curb_side_lanes ?e)" by code_simp
  have park: "?c \<in> set (parking_lanes ?e)" by code_simp
  have b: "column ?c ?before = [5]" by code_simp
  have ok: "names_ok ?e" by (rule names_ok_init)
  have nd: "?c \<notin> set derived_columns" using park by (rule lanes_not_derived(3) [OF ok])
  have "column ?c (update_row_df ?e (right_size_df ?e ?before)) =
          map (\<lambda>r. right_size_cells ?e r ?c) (df_rows ?before)"
    using nd by (rule column_right_size_update)
  also have "\<dots> = map (\<lambda>w. min w (8 * 0.3048)) (column ?c ?before)"
    by (simp add: right_size_cells_parking [OF park] column_def o_def)
  finally have after: "column ?c (update_row_df ?e (right_size_df ?e ?before)) = [8 * 0.3048]"
    by (simp add: b)
  have "map_option (column ?c) (scenario_dfs (right_size_row ''Right_Sized'' ?e) ''Right_Sized'')
          = Some [8 * 0.3048]"
    by (simp only: right_size_row_scenario option.map after)
  moreover have "map_option (column ?c)
          (scenario_dfs (right_size_row ''Right_Sized'' ?e) ''Right_Sized'') =
          Some (map (\<lambda>w. min w (11 * 0.3048)) (column ?c ?before))"
    using all curb by blast
  ultimately have "[8 * 0.3048] = map (\<lambda>w. min w (11 * 0.3048 :: real)) [5]"
    by (simp only: b option.inject)
  then show False by simp
qed

subsection \<open>Tool 0: the output feature class\<close>

lemma apply_rows_point_of:
  "\<forall>c\<in>set cs. 2 \<le> length c \<Longrightarrow>
   apply_rows point_of cs = Inr (map (\<lambda>c. (c ! 0, c ! 1)) cs)"
proof (induction cs)
  case Nil
  then show ?case by simp
next
  case (Cons c cs)
  from Cons.prems have "2 \<le> length c" by simp
  then obtain x y rest where c: "c = x # y # rest"
    by (cases c; cases "tl c") auto
  then show ?case using Cons by (simp add: point_of_def)
qed

lemma insert_features_all:
  "\<forall>f\<in>set features. \<forall>c\<in>set (coordinates f). 2 \<le> length c \<Longrightarrow>
   insert_features features inserted =
     (None, inserted @ map (\<lambda>f. (properties_id f, map (\<lambda>c. (c ! 0, c ! 1)) (coordinates f)))
                          features)"
proof (induction features arbitrary: inserted)
  case Nil
  then show ?case by simp
next
  case (Cons f fs)
  then show ?case by (simp add: apply_rows_point_of)
qed

text \<open>
  C7. For a response whose positions each hold at least two numbers, \<open>createFC\<close> returns
  normally and the output feature class then holds exactly one row per element of the
  \<open>features\<close> array, in the order of the array: the row's \<open>ssID\<close> is the element's
  \<open>properties.id\<close>, and its polyline has one vertex per position, in order, made of the
  position's first two numbers.
\<close>

theorem createFC_one_row_per_feature:
  assumes "\<forall>f\<in>set features. \<forall>c\<in>set (coordinates f). 2 \<le> length c"
      and "output_fc w = None \<or> overwriteOutput env"
  shows "createFC env features w =
           (None, w\<lparr> output_fc :=
                       Some (map (\<lambda>f. (properties_id f,
                                        map (\<lambda>c. (c ! 0, c ! 1)) (coordinates f)))
                               features) \<rparr>)"
  using assms by (auto simp: createFC_def insert_features_all)

theorem createFC_one_row_per_feature_witness:
  "createFC (example_env False) example_features fresh =
     (None, fresh\<lparr> output_fc :=
                     Some [(''a1'', [(-118.25, 34.05), (-118.24, 34.06)]),
                           (''b2'', [(-118.2, 34), (-118.1, 34.1), (-118, 34.2)])] \<rparr>)"
proof -
  have wf: "\<forall>f\<in>set example_features. \<forall>c\<in>set (coordinates f). 2 \<le> length c"
    by (simp add: example_features_def)
  have new: "output_fc fresh = None \<or> overwriteOutput (example_env False)"
    by (simp add: fresh_def)
  show ?thesis
    using createFC_one_row_per_feature [OF wf new] by (simp add: example_features_def)
qed

subsection \<open>Tool 0: requests\<close>













subsection \<open>Tool 1: fallbacks of the extraction step\<close>

lemma apply_rows_length: "apply_rows f xs = Inr ys \<Longrightarrow> length ys = length xs"
  by (induction xs arbitrary: ys) (auto split: sum.splits)

lemma apply_rows_fails:
  "x \<in> set xs \<Longrightarrow> f x = Inl e \<Longrightarrow> \<exists>e'. apply_rows f xs = Inl e'"
  by (induction xs) (auto split: sum.splits)

lemma apply_rows_succeeds:
  "\<forall>x\<in>set xs. \<exists>y. f x = Inr y \<Longrightarrow> \<exists>ys. apply_rows f xs = Inr ys"
  by (induction xs) (auto split: sum.splits)

lemma extract_absent: "absent obj field \<Longrightarrow> extract_field obj field = JNull"
  by (cases obj) (simp_all add: extract_field_def)

lemma from_to_absent: "dict_get (timeSpan r) c = None \<Longrightarrow> from_to df c field r = JNull"
  by (simp add: from_to_def cell_def get_item_zero_def extract_field_def)

lemma xy_to_polyline_JNull: "xy_to_polyline make_polyline JNull = Inl TypeError"
  by (simp add: xy_to_polyline_def)

lemma extract_fields_nth:
  assumes "extract_fields make_polyline df = Inr out"
  shows "length out = length df"
    and "i < length df \<Longrightarrow>
           activity (out ! i) = extract_field (regulations_rule (df ! i)) ''activity'' \<and>
           priorityCategory (out ! i) =
             extract_field (regulations_rule (df ! i)) ''priorityCategory'' \<and>
           maxStay (out ! i) =
             fillna (JNum (- 1)) (extract_field (regulations_rule (df ! i)) ''maxStay'') \<and>
           timesOfDay_from (out ! i) = from_to df ''timesOfDay'' ''from'' (df ! i) \<and>
           timesOfDay_to (out ! i) = from_to df ''timesOfDay'' ''to'' (df ! i) \<and>
           effectiveDates_from (out ! i) = from_to df ''effectiveDates'' ''from'' (df ! i) \<and>
           effectiveDates_to (out ! i) = from_to df ''effectiveDates'' ''to'' (df ! i) \<and>
           SharedStreetID (out ! i) = extract_field (properties_location (df ! i)) ''shstRefId'' \<and>
           payment (out ! i) = (if regulations_payment (df ! i) \<noteq> JNaN then 1 else 0)"
proof -
  obtain geoms where
    g: "apply_rows (xy_to_polyline make_polyline)
          (map (\<lambda>r. extract_field (geometry r) ''coordinates'') df) = Inr geoms"
    using assms by (auto simp: extract_fields_def Let_def split: sum.splits)
  then have len: "length geoms = length df" by (auto dest: apply_rows_length)
  let ?row = "\<lambda>(r, g).
                        \<lparr> geom = g,
                          activity = extract_field (regulations_rule r) ''activity'',
                          priorityCategory = extract_field (regulations_rule r) ''priorityCategory'',
                          maxStay = fillna (JNum (- 1)) (extract_field (regulations_rule r) ''maxStay''),
                          timesOfDay_from = from_to df ''timesOfDay'' ''from'' r,
                          timesOfDay_to = from_to df ''timesOfDay'' ''to'' r,
                          effectiveDates_from = from_to df ''effectiveDates'' ''from'' r,
                          effectiveDates_to = from_to df ''effectiveDates'' ''to'' r,
                          SharedStreetID = extract_field (properties_location r) ''shstRefId'',
                          payment = (if regulations_payment r \<noteq> JNaN then 1 else 0) \<rparr>"
  have out: "out = map ?row (zip df geoms)"
    using assms g by (simp add: extract_fields_def)
  then show "length out = length df" using len by simp
  assume i: "i < length df"
  have "out ! i = ?row (df ! i, geoms ! i)"
    using i len out by simp
  then show "activity (out ! i) = extract_field (regulations_rule (df ! i)) ''activity'' \<and>
           priorityCategory (out ! i) =
             extract_field (regulations_rule (df ! i)) ''priorityCategory'' \<and>
           maxStay (out ! i) =
             fillna (JNum (- 1)) (extract_field (regulations_rule (df ! i)) ''maxStay'') \<and>
           timesOfDay_from (out ! i) = from_to df ''timesOfDay'' ''from'' (df ! i) \<and>
           timesOfDay_to (out ! i) = from_to df ''timesOfDay'' ''to'' (df ! i) \<and>
           effectiveDates_from (out ! i) = from_to df ''effectiveDates'' ''from'' (df ! i) \<and>
           effectiveDates_to (out ! i) = from_to df ''effectiveDates'' ''to'' (df ! i) \<and>
           SharedStreetID (out ! i) = extract_field (properties_location (df ! i)) ''shstRefId'' \<and>
           payment (out ! i) = (if regulations_payment (df ! i) \<noteq> JNaN then 1 else 0)"
    by simp
qed

text \<open>
  C4, as the code has it. The extraction step fails when some record lacks the
  coordinates of its geometry. When it does not fail it yields one row per record, and in
  each row: times of day and effective dates are \<open>None\<close> where the time span has none, the
  SharedStreets id is \<open>None\<close> where the location lacks it, payment is 0 where the record has
  no payment, the activity and the priority category are \<open>None\<close> where the rule lacks them,
  and the maximum stay is \<open>-1\<close> where the rule lacks it. It does not fail when the platform
  accepts the coordinates of every record.
\<close>

theorem extraction_fallbacks:
  "((\<exists>r\<in>set df. absent (geometry r) ''coordinates'') \<longrightarrow>
      (\<exists>e. extract_fields make_polyline df = Inl e)) \<and>
   ((\<forall>r\<in>set df. \<exists>g. xy_to_polyline make_polyline (extract_field (geometry r) ''coordinates'') = Inr g)
      \<longrightarrow> (\<exists>out. extract_fields make_polyline df = Inr out)) \<and>
   (\<forall>out. extract_fields make_polyline df = Inr out \<longrightarrow>
      length out = length df \<and>
      (\<forall>i<length df.
         (dict_get (timeSpan (df ! i)) ''timesOfDay'' = None \<longrightarrow>
            timesOfDay_from (out ! i) = JNull \<and> timesOfDay_to (out ! i) = JNull) \<and>
         (dict_get (timeSpan (df ! i)) ''effectiveDates'' = None \<longrightarrow>
            effectiveDates_from (out ! i) = JNull \<and> effectiveDates_to (out ! i) = JNull) \<and>
         (absent (properties_location (df ! i)) ''shstRefId'' \<longrightarrow>
            SharedStreetID (out ! i) = JNull) \<and>
         (regulations_payment (df ! i) = JNaN \<longrightarrow> payment (out ! i) = 0) \<and>
         (absent (regulations_rule (df ! i)) ''activity'' \<longrightarrow> activity (out ! i) = JNull) \<and>
         (absent (regulations_rule (df ! i)) ''priorityCategory'' \<longrightarrow>
            priorityCategory (out ! i) = JNull) \<and>
         (absent (regulations_rule (df ! i)) ''maxStay'' \<longrightarrow> maxStay (out ! i) = JNum (- 1))))"
proof -
  have A: "(\<exists>r\<in>set df. absent (geometry r) ''coordinates'') \<longrightarrow>
             (\<exists>e. extract_fields make_polyline df = Inl e)"
  proof
    assume "\<exists>r\<in>set df. absent (geometry r) ''coordinates''"
    then obtain r where r: "r \<in> set df" and a: "absent (geometry r) ''coordinates''" by blast
    let ?coords = "map (\<lambda>r. extract_field (geometry r) ''coordinates'') df"
    have "JNull \<in> set ?coords" using r extract_absent [OF a] by force
    then obtain e where "apply_rows (xy_to_polyline make_polyline) ?coords = Inl e"
      using apply_rows_fails [of JNull ?coords "xy_to_polyline make_polyline" TypeError]
        xy_to_polyline_JNull [of make_polyline]
      by blast
    then show "\<exists>e. extract_fields make_polyline df = Inl e"
      by (simp add: extract_fields_def)
  qed
  have B: "(\<forall>r\<in>set df. \<exists>g. xy_to_polyline make_polyline
                                (extract_field (geometry r) ''coordinates'') = Inr g)
             \<longrightarrow> (\<exists>out. extract_fields make_polyline df = Inr out)"
  proof
    assume "\<forall>r\<in>set df. \<exists>g. xy_to_polyline make_polyline
                                (extract_field (geometry r) ''coordinates'') = Inr g"
    then have "\<forall>x\<in>set (map (\<lambda>r. extract_field (geometry r) ''coordinates'') df).
                 \<exists>y. xy_to_polyline make_polyline x = Inr y"
      by simp
    from apply_rows_succeeds [OF this]
    show "\<exists>out. extract_fields make_polyline df = Inr out"
      by (auto simp: extract_fields_def)
  qed
  have C: "\<forall>out. extract_fields make_polyline df = Inr out \<longrightarrow>
      length out = length df \<and>
      (\<forall>i<length df.
         (dict_get (timeSpan (df ! i)) ''timesOfDay'' = None \<longrightarrow>
            timesOfDay_from (out ! i) = JNull \<and> timesOfDay_to (out ! i) = JNull) \<and>
         (dict_get (timeSpan (df ! i)) ''effectiveDates'' = None \<longrightarrow>
            effectiveDates_from (out ! i) = JNull \<and> effectiveDates_to (out ! i) = JNull) \<and>
         (absent (properties_location (df ! i)) ''shstRefId'' \<longrightarrow>
            SharedStreetID (out ! i) = JNull) \<and>
         (regulations_payment (df ! i) = JNaN \<longrightarrow> payment (out ! i) = 0) \<and>
         (absent (regulations_rule (df ! i)) ''activity'' \<longrightarrow> activity (out ! i) = JNull) \<and>
         (absent (regulations_rule (df ! i)) ''priorityCategory'' \<longrightarrow>
            priorityCategory (out ! i) = JNull) \<and>
         (absent (regulations_rule (df ! i)) ''maxStay'' \<longrightarrow> maxStay (out ! i) = JNum (- 1)))"
  proof (intro allI impI)
    fix out
    assume ok: "extract_fields make_polyline df = Inr out"
    show "length out = length df \<and>
      (\<forall>i<length df.
         (dict_get (timeSpan (df ! i)) ''timesOfDay'' = None \<longrightarrow>
            timesOfDay_from (out ! i) = JNull \<and> timesOfDay_to (out ! i) = JNull) \<and>
         (dict_get (timeSpan (df ! i)) ''effectiveDates'' = None \<longrightarrow>
            effectiveDates_from (out ! i) = JNull \<and> effectiveDates_to (out ! i) = JNull) \<and>
         (absent (properties_location (df ! i)) ''shstRefId'' \<longrightarrow>
            SharedStreetID (out ! i) = JNull) \<and>
         (regulations_payment (df ! i) = JNaN \<longrightarrow> payment (out ! i) = 0) \<and>
         (absent (regulations_rule (df ! i)) ''activity'' \<longrightarrow> activity (out ! i) = JNull) \<and>
         (absent (regulations_rule (df ! i)) ''priorityCategory'' \<longrightarrow>
            priorityCategory (out ! i) = JNull) \<and>
         (absent (regulations_rule (df ! i)) ''maxStay'' \<longrightarrow> maxStay (out ! i) = JNum (- 1)))"
      using extract_fields_nth [OF ok]
      by (simp add: from_to_absent extract_absent fillna_def)
  qed
  from A B C show ?thesis by (intro conjI)
qed

theorem extraction_fallbacks_witness:
  "(\<exists>e. extract_fields example_polyline [bare_regulation, no_coordinates] = Inl e) \<and>
   (\<exists>out. extract_fields example_polyline [bare_regulation] = Inr out \<and>
      length out = 1 \<and>
      timesOfDay_from (out ! 0) = JNull \<and> timesOfDay_to (out ! 0) = JNull \<and>
      effectiveDates_from (out ! 0) = JNull \<and> effectiveDates_to (out ! 0) = JNull \<and>
      SharedStreetID (out ! 0) = JNull \<and> payment (out ! 0) = 0 \<and>
      activity (out ! 0) = JNull \<and> maxStay (out ! 0) = JNum (- 1))"
proof -
  have a: "\<exists>r\<in>set [bare_regulation, no_coordinates]. absent (geometry r) ''coordinates''"
    by (simp add: no_coordinates_def dict_get_def)
  have fails: "\<exists>e. extract_fields example_polyline [bare_regulation, no_coordinates] = Inl e"
    using extraction_fallbacks [of "[bare_regulation, no_coordinates]" example_polyline] a
    by blast
  have c: "\<forall>r\<in>set [bare_regulation].
             \<exists>g. xy_to_polyline example_polyline (extract_field (geometry r) ''coordinates'') = Inr g"
    by (simp add: bare_regulation_def extract_field_def dict_get_def xy_to_polyline_def
          example_polyline_def)
  have t: "dict_get (timeSpan ([bare_regulation] ! 0)) ''timesOfDay'' = None"
          "dict_get (timeSpan ([bare_regulation] ! 0)) ''effectiveDates'' = None"
    by (simp_all add: bare_regulation_def dict_get_def)
  have l: "absent (properties_location ([bare_regulation] ! 0)) ''shstRefId''"
          "regulations_payment ([bare_regulation] ! 0) = JNaN"
          "absent (regulations_rule ([bare_regulation] ! 0)) ''activity''"
          "absent (regulations_rule ([bare_regulation] ! 0)) ''maxStay''"
    by (simp_all add: bare_regulation_def dict_get_def)
  note th = extraction_fallbacks [of "[bare_regulation]" example_polyline]
  from th c obtain out where out: "extract_fields example_polyline [bare_regulation] = Inr out"
    by blast
  have i: "0 < length [bare_regulation]" by simp
  from th out have len: "length out = length [bare_regulation]" by blast
  from th out i have
    "(dict_get (timeSpan ([bare_regulation] ! 0)) ''timesOfDay'' = None \<longrightarrow>
        timesOfDay_from (out ! 0) = JNull \<and> timesOfDay_to (out ! 0) = JNull) \<and>
     (dict_get (timeSpan ([bare_regulation] ! 0)) ''effectiveDates'' = None \<longrightarrow>
        effectiveDates_from (out ! 0) = JNull \<and> effectiveDates_to (out ! 0) = JNull) \<and>
     (absent (properties_location ([bare_regulation] ! 0)) ''shstRefId'' \<longrightarrow>
        SharedStreetID (out ! 0) = JNull) \<and>
     (regulations_payment ([bare_regulation] ! 0) = JNaN \<longrightarrow> payment (out ! 0) = 0) \<and>
     (absent (regulations_rule ([bare_regulation] ! 0)) ''activity'' \<longrightarrow>
        activity (out ! 0) = JNull) \<and>
     (absent (regulations_rule ([bare_regulation] ! 0)) ''priorityCategory'' \<longrightarrow>
        priorityCategory (out ! 0) = JNull) \<and>
     (absent (regulations_rule ([bare_regulation] ! 0)) ''maxStay'' \<longrightarrow>
        maxStay (out ! 0) = JNum (- 1))"
    by blast
  with t l have
    "timesOfDay_from (out ! 0) = JNull \<and> timesOfDay_to (out ! 0) = JNull \<and>
     effectiveDates_from (out ! 0) = JNull \<and> effectiveDates_to (out ! 0) = JNull \<and>
     SharedStreetID (out ! 0) = JNull \<and> payment (out ! 0) = 0 \<and>
     activity (out ! 0) = JNull \<and> maxStay (out ! 0) = JNum (- 1)"
    by blast
  with out len fails show ?thesis by auto
qed

text \<open>
  C4 as stated fails on a record whose rule names neither an activity nor a maximum
  stay: the two extractions are protected by the handler inside \<open>extract\<close>, the run does
  not fail, the activity is \<open>None\<close> and the maximum stay is the default \<open>-1\<close>.
\<close>

theorem mandatory_fields_defaulted_counterexample:
  "absent (regulations_rule bare_regulation) ''activity'' \<and>
   absent (regulations_rule bare_regulation) ''maxStay'' \<and>
   extract_fields example_polyline [bare_regulation] =
     Inr [\<lparr> geom = [(0, 0), (1, 1)], activity = JNull, priorityCategory = JStr ''parking'',
            maxStay = JNum (- 1), timesOfDay_from = JNull, timesOfDay_to = JNull,
            effectiveDates_from = JNull, effectiveDates_to = JNull, SharedStreetID = JNull,
            payment = 0 \<rparr>]"
  by code_simp

subsection \<open>Grouping rows\<close>

lemma group_by_keys: "map fst (group_by key rows) = sort (remdups (map key rows))"
  by (simp add: group_by_def o_def)

lemma group_by_distinct: "distinct (map fst (group_by key rows))"
  by (simp add: group_by_keys)

lemma group_by_mem:
  "(k, g) \<in> set (group_by key rows) \<longleftrightarrow>
     k \<in> key ` set rows \<and> g = filter (\<lambda>x. key x = k) rows"
  by (auto simp: group_by_def)

subsection \<open>Tool 2: the candidates that survive, and the one selected\<close>

lemma kept_aggregate:
  "kept threshold located c cl \<longleftrightarrow>
     m_located_count (aggregate ((c, cl), events_on located c cl)) > 1 \<and>
     m_located_min (aggregate ((c, cl), events_on located c cl)) \<noteq>
       m_located_max (aggregate ((c, cl), events_on located c cl)) \<and>
     below (d_over_l (aggregate ((c, cl), events_on located c cl))) threshold"
  by (auto simp: kept_def aggregate_def Let_def below_def d_over_l_def Distance_delta_def)

lemma mean_aggregate:
  "Distance_mean (aggregate ((c, cl), events_on located c cl)) = mean_distance located c cl"
  by (simp add: aggregate_def Distance_mean_def mean_distance_def Let_def)

lemma key_filter:
  "filter (\<lambda>e. (curb_feature_ID e, corridor_ID e) = (c, cl)) located = events_on located c cl"
  by (simp add: events_on_def)

lemma kept_has_events:
  assumes "kept threshold located c cl"
  shows "(c, cl) \<in> (\<lambda>e. (curb_feature_ID e, corridor_ID e)) ` set located"
proof -
  have "events_on located c cl \<noteq> []" using assms by (auto simp: kept_def Let_def)
  then obtain e where "e \<in> set (events_on located c cl)" by (cases "events_on located c cl") auto
  then have "e \<in> set located" "curb_feature_ID e = c" "corridor_ID e = cl"
    by (simp_all add: events_on_def)
  then show ?thesis by force
qed

lemma surviving_iff:
  "r \<in> set (surviving threshold located) \<longleftrightarrow>
     (\<exists>c cl. kept threshold located c cl \<and> r = aggregate ((c, cl), events_on located c cl))"
proof
  assume "r \<in> set (surviving threshold located)"
  then obtain k g where kg: "(k, g) \<in> set (group_by (\<lambda>e. (curb_feature_ID e, corridor_ID e)) located)"
    and r: "r = aggregate (k, g)"
    and f: "m_located_count r > 1" "m_located_min r \<noteq> m_located_max r"
           "below (d_over_l r) threshold"
    by (auto simp: surviving_def Let_def)
  obtain c cl where k: "k = (c, cl)" by (cases k)
  have g: "g = events_on located c cl"
    using kg unfolding k group_by_mem key_filter by simp
  have "kept threshold located c cl"
    using f unfolding r k g by (simp add: kept_aggregate)
  then show "\<exists>c cl. kept threshold located c cl \<and> r = aggregate ((c, cl), events_on located c cl)"
    using r k g by blast
next
  assume "\<exists>c cl. kept threshold located c cl \<and> r = aggregate ((c, cl), events_on located c cl)"
  then obtain c cl where kp: "kept threshold located c cl"
    and r: "r = aggregate ((c, cl), events_on located c cl)" by blast
  have "((c, cl), events_on located c cl) \<in>
          set (group_by (\<lambda>e. (curb_feature_ID e, corridor_ID e)) located)"
    unfolding group_by_mem key_filter using kept_has_events [OF kp] by simp
  then have "r \<in> set (map aggregate (group_by (\<lambda>e. (curb_feature_ID e, corridor_ID e)) located))"
    unfolding r by (simp add: image_iff) blast
  moreover have "m_located_count r > 1" "m_located_min r \<noteq> m_located_max r"
                "below (d_over_l r) threshold"
    using kp unfolding r kept_aggregate by simp_all
  ultimately show "r \<in> set (surviving threshold located)"
    by (simp add: surviving_def Let_def)
qed

lemma aggregate_fields:
  "cand_curb (aggregate ((c, cl), events)) = c"
  "cand_centerline (aggregate ((c, cl), events)) = cl"
  "m_located_min (aggregate ((c, cl), events)) = Min (set (map m_located events))"
  "m_located_max (aggregate ((c, cl), events)) = Max (set (map m_located events))"
  by (simp_all add: aggregate_def)

lemma idxmin_None: "idxmin rows = None \<longleftrightarrow> rows = []"
  by (cases rows) (auto split: option.splits if_splits)

lemma idxmin_Some:
  "idxmin rows = Some b \<Longrightarrow>
   b \<in> set rows \<and> (\<forall>r\<in>set rows. Distance_mean b \<le> Distance_mean r)"
proof (induction rows arbitrary: b)
  case Nil
  then show ?case by simp
next
  case (Cons r rs)
  show ?case
  proof (cases "idxmin rs")
    case None
    then have "rs = []" by (simp add: idxmin_None)
    with Cons.prems None show ?thesis by simp
  next
    case (Some b')
    from Cons.IH [OF Some] have b': "b' \<in> set rs" "\<forall>x\<in>set rs. Distance_mean b' \<le> Distance_mean x"
      by simp_all
    show ?thesis
    proof (cases "Distance_mean r \<le> Distance_mean b'")
      case True
      then have "b = r" using Cons.prems Some by simp
      then show ?thesis using True b' by fastforce
    next
      case False
      then have "b = b'" using Cons.prems Some by simp
      then show ?thesis using False b' by fastforce
    qed
  qed
qed

lemma my_df_mem:
  "m \<in> set (my_df threshold located) \<longleftrightarrow>
     (\<exists>r. idxmin (filter (\<lambda>x. cand_curb x = match_curb m) (surviving threshold located)) = Some r \<and>
          m = \<lparr> match_curb = match_curb m, match_centerline = cand_centerline r,
                m_from = m_located_min r, m_to = m_located_max r \<rparr>)"
proof
  assume "m \<in> set (my_df threshold located)"
  then obtain kg where kg: "kg \<in> set (group_by cand_curb (surviving threshold located))"
    and mm: "m \<in> set (case kg of (curb, rows) \<Rightarrow>
                          case idxmin rows of
                            None \<Rightarrow> []
                          | Some r \<Rightarrow> [\<lparr> match_curb = curb,
                                         match_centerline = cand_centerline r,
                                         m_from = m_located_min r, m_to = m_located_max r \<rparr>])"
    unfolding my_df_def set_concat set_map by blast
  obtain curb rows where kgp: "kg = (curb, rows)" by (cases kg)
  have g: "(curb, rows) \<in> set (group_by cand_curb (surviving threshold located))"
    using kg kgp by simp
  obtain r where i: "idxmin rows = Some r"
    and m: "m = \<lparr> match_curb = curb, match_centerline = cand_centerline r,
                   m_from = m_located_min r, m_to = m_located_max r \<rparr>"
    using mm unfolding kgp by (cases "idxmin rows") simp_all
  have "rows = filter (\<lambda>x. cand_curb x = curb) (surviving threshold located)"
    using g unfolding group_by_mem by simp
  moreover have "match_curb m = curb" using m by simp
  ultimately show "\<exists>r. idxmin (filter (\<lambda>x. cand_curb x = match_curb m)
                           (surviving threshold located)) = Some r \<and>
          m = \<lparr> match_curb = match_curb m, match_centerline = cand_centerline r,
                m_from = m_located_min r, m_to = m_located_max r \<rparr>"
    using i m by auto
next
  assume "\<exists>r. idxmin (filter (\<lambda>x. cand_curb x = match_curb m) (surviving threshold located)) = Some r \<and>
          m = \<lparr> match_curb = match_curb m, match_centerline = cand_centerline r,
                m_from = m_located_min r, m_to = m_located_max r \<rparr>"
  then obtain r where
    i: "idxmin (filter (\<lambda>x. cand_curb x = match_curb m) (surviving threshold located)) = Some r"
    and m: "m = \<lparr> match_curb = match_curb m, match_centerline = cand_centerline r,
                   m_from = m_located_min r, m_to = m_located_max r \<rparr>"
    by blast
  let ?rows = "filter (\<lambda>x. cand_curb x = match_curb m) (surviving threshold located)"
  have "r \<in> set ?rows" using idxmin_Some [OF i] by simp
  then have "match_curb m \<in> cand_curb ` set (surviving threshold located)" by force
  then have "(match_curb m, ?rows) \<in> set (group_by cand_curb (surviving threshold located))"
    unfolding group_by_mem by simp
  then show "m \<in> set (my_df threshold located)"
    unfolding my_df_def using i m by (force split: option.splits)
qed

lemma my_df_unique:
  assumes "m \<in> set (my_df threshold located)" and "m' \<in> set (my_df threshold located)"
      and "match_curb m = match_curb m'"
  shows "m = m'"
proof -
  obtain r where r: "idxmin (filter (\<lambda>x. cand_curb x = match_curb m)
                       (surviving threshold located)) = Some r"
    and m: "m = \<lparr> match_curb = match_curb m, match_centerline = cand_centerline r,
                   m_from = m_located_min r, m_to = m_located_max r \<rparr>"
    using assms(1) unfolding my_df_mem by blast
  obtain r' where r': "idxmin (filter (\<lambda>x. cand_curb x = match_curb m')
                       (surviving threshold located)) = Some r'"
    and m': "m' = \<lparr> match_curb = match_curb m', match_centerline = cand_centerline r',
                   m_from = m_located_min r', m_to = m_located_max r' \<rparr>"
    using assms(2) unfolding my_df_mem by blast
  have "r = r'" using r r' assms(3) by simp
  then show ?thesis using m m' assms(3) by metis
qed

lemma matched_mem:
  "m \<in> set (matched_curb_features threshold located curb_features) \<longleftrightarrow>
     m \<in> set (my_df threshold located) \<and> match_curb m \<in> set curb_features"
proof
  assume "m \<in> set (matched_curb_features threshold located curb_features)"
  then obtain c where c: "c \<in> set curb_features"
    and f: "find (\<lambda>m. match_curb m = c) (my_df threshold located) = Some m"
    by (auto simp: matched_curb_features_def split: option.splits)
  from f have "m \<in> set (my_df threshold located)" "match_curb m = c"
    by (auto simp: find_Some_iff)
  with c show "m \<in> set (my_df threshold located) \<and> match_curb m \<in> set curb_features" by simp
next
  assume a: "m \<in> set (my_df threshold located) \<and> match_curb m \<in> set curb_features"
  then obtain m' where f: "find (\<lambda>x. match_curb x = match_curb m) (my_df threshold located) = Some m'"
    by (cases "find (\<lambda>x. match_curb x = match_curb m) (my_df threshold located)")
       (auto simp: find_None_iff)
  then have "m' \<in> set (my_df threshold located)" "match_curb m' = match_curb m"
    by (auto simp: find_Some_iff)
  then have "m' = m" using a my_df_unique by blast
  then show "m \<in> set (matched_curb_features threshold located curb_features)"
    using a f by (force simp: matched_curb_features_def)
qed

lemma my_df_selected:
  assumes "m \<in> set (my_df threshold located)"
  shows "kept threshold located (match_curb m) (match_centerline m)"
    and "m_from m = Min (set (map m_located
                         (events_on located (match_curb m) (match_centerline m))))"
    and "m_to m = Max (set (map m_located
                       (events_on located (match_curb m) (match_centerline m))))"
    and "kept threshold located (match_curb m) cl \<Longrightarrow>
           mean_distance located (match_curb m) (match_centerline m) \<le>
           mean_distance located (match_curb m) cl"
proof -
  let ?rows = "filter (\<lambda>x. cand_curb x = match_curb m) (surviving threshold located)"
  obtain r where i: "idxmin ?rows = Some r"
    and m: "m = \<lparr> match_curb = match_curb m, match_centerline = cand_centerline r,
                   m_from = m_located_min r, m_to = m_located_max r \<rparr>"
    using assms unfolding my_df_mem by blast
  have rin: "r \<in> set ?rows" and least: "\<forall>x\<in>set ?rows. Distance_mean r \<le> Distance_mean x"
    using idxmin_Some [OF i] by simp_all
  from rin have "r \<in> set (surviving threshold located)" and rc: "cand_curb r = match_curb m"
    by simp_all
  then obtain c cl' where kp: "kept threshold located c cl'"
    and r: "r = aggregate ((c, cl'), events_on located c cl')"
    unfolding surviving_iff by blast
  have c: "c = match_curb m" using rc r by (simp add: aggregate_fields)
  have mc: "match_centerline m = cl'"
    using m r by (metis aggregate_fields(2) match.select_convs(2))
  show "kept threshold located (match_curb m) (match_centerline m)"
    using kp c mc by simp
  have "m_from m = m_located_min r" using m by (metis match.select_convs(3))
  then show "m_from m = Min (set (map m_located
                         (events_on located (match_curb m) (match_centerline m))))"
    using r c mc by (simp add: aggregate_fields)
  have "m_to m = m_located_max r" using m by (metis match.select_convs(4))
  then show "m_to m = Max (set (map m_located
                       (events_on located (match_curb m) (match_centerline m))))"
    using r c mc by (simp add: aggregate_fields)
  assume other: "kept threshold located (match_curb m) cl"
  let ?x = "aggregate ((match_curb m, cl), events_on located (match_curb m) cl)"
  have "?x \<in> set (surviving threshold located)"
    unfolding surviving_iff using other by blast
  then have "?x \<in> set ?rows" by (simp add: aggregate_fields)
  then have "Distance_mean r \<le> Distance_mean ?x" using least by blast
  then show "mean_distance located (match_curb m) (match_centerline m) \<le>
           mean_distance located (match_curb m) cl"
    unfolding r c mc by (simp add: mean_aggregate c [symmetric])
qed

lemma my_df_exists:
  assumes "kept threshold located c cl"
  shows "\<exists>m\<in>set (my_df threshold located). match_curb m = c"
proof -
  let ?rows = "filter (\<lambda>x. cand_curb x = c) (surviving threshold located)"
  have "aggregate ((c, cl), events_on located c cl) \<in> set (surviving threshold located)"
    unfolding surviving_iff using assms by blast
  then have "aggregate ((c, cl), events_on located c cl) \<in> set ?rows"
    by (simp add: aggregate_fields)
  then have "0 < length ?rows" by (rule length_pos_if_in_set)
  then have "?rows \<noteq> []" by simp
  then obtain r where i: "idxmin ?rows = Some r"
    using idxmin_None [of ?rows] by (cases "idxmin ?rows") auto
  let ?m = "\<lparr> match_curb = c, match_centerline = cand_centerline r,
               m_from = m_located_min r, m_to = m_located_max r \<rparr>"
  have "?m \<in> set (my_df threshold located)"
    unfolding my_df_mem using i by simp
  then show ?thesis by force
qed

text \<open>
  C1. Every curb feature of the output is associated with a centerline such that the
  pair (curb feature, centerline) was kept: more than one vertex event was located on the
  centerline, the least and greatest located measures differ, and \<open>Distance_delta\<close> over
  the feature's \<open>LENGTH\<close> is a number strictly below the sine of the angle threshold. Its
  \<open>m_from\<close> and \<open>m_to\<close> are those least and greatest measures. Among the kept pairs of the
  curb feature its centerline has the least \<open>Distance_mean\<close>. A curb feature has exactly
  one such row, and it is in the output if and only if some pair of it was kept.
\<close>

theorem correspondence_selection:
  fixes located :: "located_event list" and curb_features :: "int list"
    and angle_threshold :: real
  defines "threshold \<equiv> sin (radians angle_threshold)"
  defines "out \<equiv> prepare_lr_correspondence located curb_features angle_threshold"
  shows "(\<forall>m\<in>set out.
            match_curb m \<in> set curb_features \<and>
            kept threshold located (match_curb m) (match_centerline m) \<and>
            m_from m = Min (set (map m_located
                                   (events_on located (match_curb m) (match_centerline m)))) \<and>
            m_to m = Max (set (map m_located
                                 (events_on located (match_curb m) (match_centerline m)))) \<and>
            (\<forall>cl. kept threshold located (match_curb m) cl \<longrightarrow>
                    mean_distance located (match_curb m) (match_centerline m) \<le>
                    mean_distance located (match_curb m) cl) \<and>
            (\<forall>m'\<in>set out. match_curb m' = match_curb m \<longrightarrow> m' = m)) \<and>
         (\<forall>c\<in>set curb_features.
            (\<exists>m\<in>set out. match_curb m = c) \<longleftrightarrow> (\<exists>cl. kept threshold located c cl))"
proof -
  have out: "\<And>m. m \<in> set out \<longleftrightarrow>
                  m \<in> set (my_df threshold located) \<and> match_curb m \<in> set curb_features"
    unfolding out_def threshold_def prepare_lr_correspondence_def by (rule matched_mem)
  have first: "\<forall>m\<in>set out.
            match_curb m \<in> set curb_features \<and>
            kept threshold located (match_curb m) (match_centerline m) \<and>
            m_from m = Min (set (map m_located
                                   (events_on located (match_curb m) (match_centerline m)))) \<and>
            m_to m = Max (set (map m_located
                                 (events_on located (match_curb m) (match_centerline m)))) \<and>
            (\<forall>cl. kept threshold located (match_curb m) cl \<longrightarrow>
                    mean_distance located (match_curb m) (match_centerline m) \<le>
                    mean_distance located (match_curb m) cl) \<and>
            (\<forall>m'\<in>set out. match_curb m' = match_curb m \<longrightarrow> m' = m)"
  proof
    fix m
    assume "m \<in> set out"
    then have m: "m \<in> set (my_df threshold located)" and c: "match_curb m \<in> set curb_features"
      unfolding out by simp_all
    have u: "\<forall>m'\<in>set out. match_curb m' = match_curb m \<longrightarrow> m' = m"
    proof (intro ballI impI)
      fix m'
      assume "m' \<in> set out" and e: "match_curb m' = match_curb m"
      then have "m' \<in> set (my_df threshold located)" by (simp add: out)
      then show "m' = m" using m e by (rule my_df_unique)
    qed
    show "match_curb m \<in> set curb_features \<and>
            kept threshold located (match_curb m) (match_centerline m) \<and>
            m_from m = Min (set (map m_located
                                   (events_on located (match_curb m) (match_centerline m)))) \<and>
            m_to m = Max (set (map m_located
                                 (events_on located (match_curb m) (match_centerline m)))) \<and>
            (\<forall>cl. kept threshold located (match_curb m) cl \<longrightarrow>
                    mean_distance located (match_curb m) (match_centerline m) \<le>
                    mean_distance located (match_curb m) cl) \<and>
            (\<forall>m'\<in>set out. match_curb m' = match_curb m \<longrightarrow> m' = m)"
      using c my_df_selected [OF m] u by blast
  qed
  have second: "\<forall>c\<in>set curb_features.
            (\<exists>m\<in>set out. match_curb m = c) \<longleftrightarrow> (\<exists>cl. kept threshold located c cl)"
  proof
    fix c
    assume c: "c \<in> set curb_features"
    show "(\<exists>m\<in>set out. match_curb m = c) \<longleftrightarrow> (\<exists>cl. kept threshold located c cl)"
    proof
      assume "\<exists>m\<in>set out. match_curb m = c"
      then obtain m where "m \<in> set out" and mc: "match_curb m = c" by blast
      then have "m \<in> set (my_df threshold located)" by (simp add: out)
      then have "kept threshold located (match_curb m) (match_centerline m)"
        by (rule my_df_selected(1))
      then show "\<exists>cl. kept threshold located c cl"
        unfolding mc by blast
    next
      assume "\<exists>cl. kept threshold located c cl"
      then obtain m where "m \<in> set (my_df threshold located)" and mc: "match_curb m = c"
        using my_df_exists by blast
      then have "m \<in> set out" using c by (simp add: out)
      then show "\<exists>m\<in>set out. match_curb m = c"
        using mc by blast
    qed
  qed
  from first second show ?thesis by (rule conjI)
qed

theorem correspondence_selection_witness:
  "prepare_lr_correspondence example_located [1, 2, 3] 30 =
     [\<lparr> match_curb = 1, match_centerline = 11, m_from = 5, m_to = 55 \<rparr>] \<and>
   kept (sin (radians 30)) example_located 1 11 \<and>
   mean_distance example_located 1 11 \<le> mean_distance example_located 1 10 \<and>
   \<not> (\<exists>cl. kept (sin (radians 30)) example_located 2 cl)"
proof -
  let ?m = "\<lparr> match_curb = 1, match_centerline = 11, m_from = 5, m_to = 55 \<rparr>"
  have "radians 30 = pi / 6" by (simp add: radians_def)
  then have thr: "sin (radians 30) = 1 / 2" by (simp only: sin_30)
  have "matched_curb_features (1 / 2) example_located [1, 2, 3] = [?m]" by code_simp
  then have out: "prepare_lr_correspondence example_located [1, 2, 3] 30 = [?m]"
    by (simp add: prepare_lr_correspondence_def thr)
  have other: "kept (sin (radians 30)) example_located 1 10"
    unfolding thr by code_simp
  note th = correspondence_selection [of example_located "[1, 2, 3]" 30, unfolded out]
  have m: "?m \<in> set [?m]" by simp
  from th m have
    "kept (sin (radians 30)) example_located (match_curb ?m) (match_centerline ?m) \<and>
     (\<forall>cl. kept (sin (radians 30)) example_located (match_curb ?m) cl \<longrightarrow>
            mean_distance example_located (match_curb ?m) (match_centerline ?m) \<le>
            mean_distance example_located (match_curb ?m) cl)"
    by blast
  then have k: "kept (sin (radians 30)) example_located 1 11"
    and least: "\<forall>cl. kept (sin (radians 30)) example_located 1 cl \<longrightarrow>
                  mean_distance example_located 1 11 \<le> mean_distance example_located 1 cl"
    by simp_all
  have c: "(2::int) \<in> set [1, 2, 3]" by simp
  from th c have "(\<exists>m\<in>set [?m]. match_curb m = 2) \<longleftrightarrow>
                  (\<exists>cl. kept (sin (radians 30)) example_located 2 cl)"
    by blast
  then have none: "\<not> (\<exists>cl. kept (sin (radians 30)) example_located 2 cl)" by simp
  from out k least other none show ?thesis by blast
qed

subsection \<open>Tool 3: curbside usage summaries\<close>

lemma corridor_rows_src:
  "map src (corridor_rows to_datetime curb_df query corridor) =
     filter (\<lambda>r. 0 < str_count query (daysOfWeek r)) (corridor_source curb_df corridor)"
proof -
  have "\<And>xs. map src (map (analyse to_datetime (has_dt curb_df))
                  (filter (\<lambda>rd. 0 < snd rd)
                     (map (\<lambda>r. (r, str_count query (daysOfWeek r))) xs))) =
              filter (\<lambda>r. 0 < str_count query (daysOfWeek r)) xs"
  proof -
    fix xs
    show "map src (map (analyse to_datetime (has_dt curb_df))
                  (filter (\<lambda>rd. 0 < snd rd)
                     (map (\<lambda>r. (r, str_count query (daysOfWeek r))) xs))) =
              filter (\<lambda>r. 0 < str_count query (daysOfWeek r)) xs"
      by (induction xs) (simp_all add: analyse_def Let_def)
  qed
  then show ?thesis by (simp add: corridor_rows_def Let_def)
qed

lemma corridor_rows_fields:
  assumes "a \<in> set (corridor_rows to_datetime curb_df query corridor)"
  shows "Days_Active a = str_count query (daysOfWeek (src a))"
    and "0 < Days_Active a"
    and "Hours_Span a = (to_dt a - from_dt a) / 3600"
    and "Weekly_Hours a = Hours_Span a * real (Days_Active a)"
    and "Linear_Feet_Hours a = Weekly_Hours a * Linear_Feet (src a)"
    and "from_dt a = (if has_dt curb_df then timesOfDay_from_dt (src a)
                      else to_datetime (cr_timesOfDay_from (src a)))"
    and "to_dt a = (if has_dt curb_df then timesOfDay_to_dt (src a)
                    else to_datetime (cr_timesOfDay_to (src a)))"
proof -
  obtain r where a: "a = analyse to_datetime (has_dt curb_df) (r, str_count query (daysOfWeek r))"
    and d: "0 < str_count query (daysOfWeek r)"
    using assms by (auto simp: corridor_rows_def Let_def)
  show "Days_Active a = str_count query (daysOfWeek (src a))"
    and "0 < Days_Active a"
    and "Hours_Span a = (to_dt a - from_dt a) / 3600"
    and "Weekly_Hours a = Hours_Span a * real (Days_Active a)"
    and "Linear_Feet_Hours a = Weekly_Hours a * Linear_Feet (src a)"
    and "from_dt a = (if has_dt curb_df then timesOfDay_from_dt (src a)
                      else to_datetime (cr_timesOfDay_from (src a)))"
    and "to_dt a = (if has_dt curb_df then timesOfDay_to_dt (src a)
                    else to_datetime (cr_timesOfDay_to (src a)))"
    using d unfolding a by (simp_all add: analyse_def Let_def)
qed

lemma summed_groups_keys: "map fst (summed_groups rows) = map fst (group_by regulation_key rows)"
  by (simp add: summed_groups_def o_def split_def)

lemma summed_groups_mem:
  assumes "(k, lf, lfh) \<in> set (summed_groups rows)"
  shows "k \<in> regulation_key ` set rows"
    and "lf = sum_list (map (\<lambda>a. Linear_Feet (src a)) (filter (\<lambda>a. regulation_key a = k) rows))"
    and "lfh = sum_list (map Linear_Feet_Hours (filter (\<lambda>a. regulation_key a = k) rows))"
proof -
  obtain g where g: "(k, g) \<in> set (group_by regulation_key rows)"
    and lf: "lf = sum_list (map (\<lambda>a. Linear_Feet (src a)) g)"
    and lfh: "lfh = sum_list (map Linear_Feet_Hours g)"
    using assms unfolding summed_groups_def by auto
  from g have "k \<in> regulation_key ` set rows"
    and "g = filter (\<lambda>a. regulation_key a = k) rows"
    unfolding group_by_mem by simp_all
  then show "k \<in> regulation_key ` set rows"
    and "lf = sum_list (map (\<lambda>a. Linear_Feet (src a)) (filter (\<lambda>a. regulation_key a = k) rows))"
    and "lfh = sum_list (map Linear_Feet_Hours (filter (\<lambda>a. regulation_key a = k) rows))"
    using lf lfh by simp_all
qed

lemma numbered_rows:
  fixes xs :: "(group_key \<times> real \<times> real) list"
  assumes "length ns = length xs"
  shows "map (\<lambda>s. (sum_key s, sum_Linear_Feet s, sum_Linear_Feet_Hours s))
           (map (\<lambda>(i, (k, lf, lfh)).
                   \<lparr> sum_key = k, sum_Linear_Feet = lf, sum_Linear_Feet_Hours = lfh,
                     Summary_ID = i \<rparr>)
              (zip ns xs)) = xs"
    and "map Summary_ID
           (map (\<lambda>(i, (k, lf, lfh)).
                   \<lparr> sum_key = k, sum_Linear_Feet = lf, sum_Linear_Feet_Hours = lfh,
                     Summary_ID = i \<rparr>)
              (zip ns xs)) = ns"
    and "length (map (\<lambda>(i, (k, lf, lfh)).
                   \<lparr> sum_key = k, sum_Linear_Feet = lf, sum_Linear_Feet_Hours = lfh,
                     Summary_ID = i \<rparr>)
              (zip ns xs)) = length xs"
  using assms by (induction ns xs rule: list_induct2) (simp_all add: split_def)

lemma upt_one_length: "length [1..<n + 1] = n"
  by (simp del: upt_Suc)

lemma corridor_summary_triples:
  "map (\<lambda>s. (sum_key s, sum_Linear_Feet s, sum_Linear_Feet_Hours s)) (corridor_summary rows) =
     ordered_groups rows"
  unfolding corridor_summary_def Let_def ordered_groups_def [symmetric]
    summed_groups_def [symmetric]
  by (rule numbered_rows(1)) (rule upt_one_length)

lemma corridor_summary_length: "length (corridor_summary rows) = length (ordered_groups rows)"
  unfolding corridor_summary_def Let_def ordered_groups_def [symmetric]
    summed_groups_def [symmetric]
  by (rule numbered_rows(3)) (rule upt_one_length)

lemma corridor_summary_ids:
  "map Summary_ID (corridor_summary rows) = [1..<length (corridor_summary rows) + 1]"
proof -
  have "map Summary_ID (corridor_summary rows) = [1..<length (ordered_groups rows) + 1]"
    unfolding corridor_summary_def Let_def ordered_groups_def [symmetric]
      summed_groups_def [symmetric]
    by (rule numbered_rows(2)) (rule upt_one_length)
  then show ?thesis by (simp only: corridor_summary_length)
qed

lemma ordered_groups_set: "set (ordered_groups rows) = set (summed_groups rows)"
  by (simp add: ordered_groups_def)

lemma ordered_groups_distinct: "distinct (map fst (ordered_groups rows))"
proof -
  have "distinct (map fst (summed_groups rows))"
    by (simp add: summed_groups_keys group_by_distinct)
  then have "card (set (map fst (summed_groups rows))) = length (map fst (summed_groups rows))"
    by (rule distinct_card)
  then have "card (set (map fst (ordered_groups rows))) = length (map fst (ordered_groups rows))"
    by (simp add: ordered_groups_def)
  then show ?thesis by (rule card_distinct)
qed

lemma ordered_groups_descending:
  "sorted_wrt (\<lambda>x y. snd (snd x) \<ge> snd (snd y)) (ordered_groups rows)"
proof -
  have "sorted (map (\<lambda>(k, lf, lfh). - lfh) (ordered_groups rows))"
    unfolding ordered_groups_def by (rule sorted_sort_key)
  then have "sorted_wrt (\<lambda>x y. (case x of (k, lf, lfh) \<Rightarrow> - lfh) \<le> (case y of (k, lf, lfh) \<Rightarrow> - lfh))
               (ordered_groups rows)"
    by (simp add: sorted_wrt_map)
  then show ?thesis
    by (rule sorted_wrt_mono_rel [rotated]) (auto simp: split_def)
qed

lemma comma_not_alternative:
  assumes "\<forall>a\<in>set alts. CHR '','' \<notin> set a"
  shows "[CHR '','', x] \<notin> set alts" and "[x, CHR '',''] \<notin> set alts"
  using assms by force+

lemma count_pairs_comma:
  assumes "\<forall>a\<in>set alts. CHR '','' \<notin> set a"
  shows "count_pairs alts (CHR '','' # r) = count_pairs alts r"
  by (cases r) (simp_all add: comma_not_alternative [OF assms])

text \<open>
  On a \<open>daysOfWeek\<close> text that lists two-letter days separated by commas, the count of
  matches is the number of listed days that are among the alternatives.
\<close>

lemma count_pairs_comma_join:
  assumes "\<forall>a\<in>set alts. CHR '','' \<notin> set a"
      and "\<forall>d\<in>set ds. length d = 2"
  shows "count_pairs alts (comma_join ds) = length (filter (\<lambda>d. d \<in> set alts) ds)"
  using assms(2)
proof (induction ds rule: comma_join.induct)
  case 1
  then show ?case by simp
next
  case (2 d)
  then have "length d = 2" by simp
  then obtain c1 c2 where "d = [c1, c2]"
    by (cases d; cases "tl d"; cases "tl (tl d)") auto
  then show ?case by simp
next
  case (3 d e ds)
  then have "length d = 2" by simp
  then obtain c1 c2 where d: "d = [c1, c2]"
    by (cases d; cases "tl d"; cases "tl (tl d)") auto
  have ih: "count_pairs alts (comma_join (e # ds)) =
              length (filter (\<lambda>d. d \<in> set alts) (e # ds))"
    using 3 by simp
  show ?case
    unfolding d using ih
    by (simp add: count_pairs_comma [OF assms(1)] comma_not_alternative [OF assms(1)]
          del: count_pairs.simps(1))
       (simp add: count_pairs.simps(1) comma_not_alternative [OF assms(1)]
          count_pairs_comma [OF assms(1)])
qed

text \<open>
  C5. For a corridor and analysed days whose names are all day names, the retained rows
  are the corridor's (primary) rows whose \<open>Days_Active\<close>, the count of matches of the
  analysed days' abbreviations in \<open>daysOfWeek\<close>, is not 0. In each retained row
  \<open>Hours_Span\<close> is \<open>timesOfDay_to_dt\<close> less \<open>timesOfDay_from_dt\<close> in hours, \<open>Weekly_Hours\<close>
  is \<open>Hours_Span\<close> times \<open>Days_Active\<close>, and \<open>Linear_Feet_Hours\<close> is \<open>Weekly_Hours\<close> times
  \<open>Linear_Feet\<close>. The summary has exactly one row per regulation group of the retained
  rows, holding the sums of \<open>Linear_Feet\<close> and of \<open>Linear_Feet_Hours\<close> over the group; its
  rows are in descending order of \<open>Linear_Feet_Hours\<close> and carry the \<open>Summary_ID\<close>s 1, 2,
  ... in that order.
\<close>

theorem curbside_summary:
  fixes to_datetime :: "string \<Rightarrow> real" and curb_df :: curb_table
    and days_of_week_analyzed query :: "string list" and corridor :: int
  assumes "days_analyzed_query days_of_week_analyzed = Inr query"
  defines "rows \<equiv> corridor_rows to_datetime curb_df query corridor"
  defines "summary \<equiv> corridor_summary rows"
  shows "map src rows =
           filter (\<lambda>r. 0 < str_count query (daysOfWeek r)) (corridor_source curb_df corridor) \<and>
         (\<forall>a\<in>set rows.
            Days_Active a = str_count query (daysOfWeek (src a)) \<and> 0 < Days_Active a \<and>
            Hours_Span a = (to_dt a - from_dt a) / 3600 \<and>
            Weekly_Hours a = Hours_Span a * real (Days_Active a) \<and>
            Linear_Feet_Hours a = Weekly_Hours a * Linear_Feet (src a) \<and>
            from_dt a = (if has_dt curb_df then timesOfDay_from_dt (src a)
                         else to_datetime (cr_timesOfDay_from (src a))) \<and>
            to_dt a = (if has_dt curb_df then timesOfDay_to_dt (src a)
                       else to_datetime (cr_timesOfDay_to (src a)))) \<and>
         (\<forall>s\<in>set summary.
            (\<exists>a\<in>set rows. regulation_key a = sum_key s) \<and>
            sum_Linear_Feet s =
              sum_list (map (\<lambda>a. Linear_Feet (src a))
                          (filter (\<lambda>a. regulation_key a = sum_key s) rows)) \<and>
            sum_Linear_Feet_Hours s =
              sum_list (map Linear_Feet_Hours
                          (filter (\<lambda>a. regulation_key a = sum_key s) rows))) \<and>
         (\<forall>a\<in>set rows. \<exists>s\<in>set summary. sum_key s = regulation_key a) \<and>
         distinct (map sum_key summary) \<and>
         sorted_wrt (\<lambda>s t. sum_Linear_Feet_Hours s \<ge> sum_Linear_Feet_Hours t) summary \<and>
         map Summary_ID summary = [1..<length summary + 1]"
proof -
  let ?triple = "\<lambda>s. (sum_key s, sum_Linear_Feet s, sum_Linear_Feet_Hours s)"
  have tr: "map ?triple summary = ordered_groups rows"
    unfolding summary_def by (rule corridor_summary_triples)
  have p1: "map src rows =
           filter (\<lambda>r. 0 < str_count query (daysOfWeek r)) (corridor_source curb_df corridor)"
    unfolding rows_def by (rule corridor_rows_src)
  have p2: "\<forall>a\<in>set rows.
            Days_Active a = str_count query (daysOfWeek (src a)) \<and> 0 < Days_Active a \<and>
            Hours_Span a = (to_dt a - from_dt a) / 3600 \<and>
            Weekly_Hours a = Hours_Span a * real (Days_Active a) \<and>
            Linear_Feet_Hours a = Weekly_Hours a * Linear_Feet (src a) \<and>
            from_dt a = (if has_dt curb_df then timesOfDay_from_dt (src a)
                         else to_datetime (cr_timesOfDay_from (src a))) \<and>
            to_dt a = (if has_dt curb_df then timesOfDay_to_dt (src a)
                       else to_datetime (cr_timesOfDay_to (src a)))"
  proof
    fix a
    assume "a \<in> set rows"
    then have a: "a \<in> set (corridor_rows to_datetime curb_df query corridor)"
      by (simp only: rows_def)
    show "Days_Active a = str_count query (daysOfWeek (src a)) \<and> 0 < Days_Active a \<and>
            Hours_Span a = (to_dt a - from_dt a) / 3600 \<and>
            Weekly_Hours a = Hours_Span a * real (Days_Active a) \<and>
            Linear_Feet_Hours a = Weekly_Hours a * Linear_Feet (src a) \<and>
            from_dt a = (if has_dt curb_df then timesOfDay_from_dt (src a)
                         else to_datetime (cr_timesOfDay_from (src a))) \<and>
            to_dt a = (if has_dt curb_df then timesOfDay_to_dt (src a)
                       else to_datetime (cr_timesOfDay_to (src a)))"
      by (intro conjI corridor_rows_fields [OF a])
  qed
  have p3: "\<forall>s\<in>set summary.
            (\<exists>a\<in>set rows. regulation_key a = sum_key s) \<and>
            sum_Linear_Feet s =
              sum_list (map (\<lambda>a. Linear_Feet (src a))
                          (filter (\<lambda>a. regulation_key a = sum_key s) rows)) \<and>
            sum_Linear_Feet_Hours s =
              sum_list (map Linear_Feet_Hours
                          (filter (\<lambda>a. regulation_key a = sum_key s) rows))"
  proof
    fix s
    assume "s \<in> set summary"
    then have "?triple s \<in> set (map ?triple summary)" by simp
    then have "(sum_key s, sum_Linear_Feet s, sum_Linear_Feet_Hours s) \<in> set (summed_groups rows)"
      unfolding tr ordered_groups_set .
    from summed_groups_mem [OF this]
    show "(\<exists>a\<in>set rows. regulation_key a = sum_key s) \<and>
            sum_Linear_Feet s =
              sum_list (map (\<lambda>a. Linear_Feet (src a))
                          (filter (\<lambda>a. regulation_key a = sum_key s) rows)) \<and>
            sum_Linear_Feet_Hours s =
              sum_list (map Linear_Feet_Hours
                          (filter (\<lambda>a. regulation_key a = sum_key s) rows))"
      by (auto simp: image_iff)
  qed
  have keys: "map sum_key summary = map fst (ordered_groups rows)"
    unfolding tr [symmetric] by (simp add: o_def)
  have p4: "\<forall>a\<in>set rows. \<exists>s\<in>set summary. sum_key s = regulation_key a"
  proof
    fix a
    assume "a \<in> set rows"
    then have "regulation_key a \<in> set (map fst (group_by regulation_key rows))"
      by (simp add: group_by_keys)
    then have "regulation_key a \<in> set (map fst (summed_groups rows))"
      by (simp only: summed_groups_keys)
    then have "regulation_key a \<in> fst ` set (ordered_groups rows)"
      by (simp only: ordered_groups_set set_map)
    then have "regulation_key a \<in> set (map sum_key summary)"
      by (simp only: keys set_map)
    then show "\<exists>s\<in>set summary. sum_key s = regulation_key a" by auto
  qed
  have p5: "distinct (map sum_key summary)"
    unfolding keys by (rule ordered_groups_distinct)
  have "sorted_wrt (\<lambda>x y. snd (snd x) \<ge> snd (snd y)) (map ?triple summary)"
    unfolding tr by (rule ordered_groups_descending)
  then have p6: "sorted_wrt (\<lambda>s t. sum_Linear_Feet_Hours s \<ge> sum_Linear_Feet_Hours t) summary"
    by (simp add: sorted_wrt_map)
  have p7: "map Summary_ID summary = [1..<length summary + 1]"
    unfolding summary_def by (rule corridor_summary_ids)
  from p1 p2 p3 p4 p5 p6 p7 show ?thesis by (intro conjI)
qed

theorem curbside_summary_witness:
  "days_analyzed_query [''Monday'', ''Tuesday'', ''Saturday''] = Inr [''mo'', ''tu'', ''sa''] \<and>
   map (\<lambda>a. (Days_Active a, Hours_Span a, Weekly_Hours a, Linear_Feet_Hours a))
     (corridor_rows (\<lambda>s. 0) example_curb_table [''mo'', ''tu'', ''sa''] 7) =
     [(2, 2, 4, 160), (3, 10, 30, 3000), (2, 2, 4, 100)] \<and>
   map (\<lambda>s. (sum_Linear_Feet s, sum_Linear_Feet_Hours s))
     (corridor_summary (corridor_rows (\<lambda>s. 0) example_curb_table [''mo'', ''tu'', ''sa''] 7)) =
     [(100, 3000), (65, 260)] \<and>
   map Summary_ID
     (corridor_summary (corridor_rows (\<lambda>s. 0) example_curb_table [''mo'', ''tu'', ''sa''] 7)) =
     [1, 2]"
proof -
  let ?rows = "corridor_rows (\<lambda>s. 0) example_curb_table [''mo'', ''tu'', ''sa''] 7"
  have q: "days_analyzed_query [''Monday'', ''Tuesday'', ''Saturday''] = Inr [''mo'', ''tu'', ''sa'']"
    by code_simp
  have r: "map (\<lambda>a. (Days_Active a, Hours_Span a, Weekly_Hours a, Linear_Feet_Hours a)) ?rows =
             [(2, 2, 4, 160), (3, 10, 30, 3000), (2, 2, 4, 100)]"
    by code_simp
  have s: "map (\<lambda>s. (sum_Linear_Feet s, sum_Linear_Feet_Hours s)) (corridor_summary ?rows) =
             [(100, 3000), (65, 260)]"
    by code_simp
  then have "length (map (\<lambda>s. (sum_Linear_Feet s, sum_Linear_Feet_Hours s))
                       (corridor_summary ?rows)) = 2"
    by simp
  then have len: "length (corridor_summary ?rows) = 2" by simp
  from curbside_summary [OF q, of "\<lambda>s. 0" example_curb_table 7]
  have "map Summary_ID (corridor_summary ?rows) = [1..<length (corridor_summary ?rows) + 1]"
    by blast
  then have "map Summary_ID (corridor_summary ?rows) = [1, 2]"
    unfolding len by (simp add: upt_rec)
  with q r s show ?thesis by blast
qed

end
